theory Spec2Isabelle
  imports Main "HOL-Library.Multiset"
begin

section \<open>Values, documents and the document store\<close>

text \<open>
  The backend is a set of Express route handlers over three Mongoose models. Each handler
  is embedded as a function from the request and the store to the response and the store
  after the request. The handlers of \<^verbatim>\<open>src/index.js\<close> (its first, latest
  document) keep the name of their route; where \<^verbatim>\<open>src/unnamed/part_000\<close> or
  \<^verbatim>\<open>src/unnamed/part_001\<close> has a different body for the same route, that body is
  embedded too, under the route's name with the file's name as suffix.

  Request fields are modelled at the type their schema path declares (a string, a date, a
  list of strings), each of them optional: \<open>None\<close> is JavaScript's
  \<^verbatim>\<open>undefined\<close>. A date is given as its number of milliseconds since the epoch; a
  number beyond the range of JavaScript's \<^verbatim>\<open>Date\<close> is no date. The \<^verbatim>\<open>isAdmin\<close>
  field of a registration is any JSON value, since the handler tests its truthiness.
\<close>

type_synonym oid = nat
type_synonym date = nat

text \<open>What \<^verbatim>\<open>res.json\<close> sends.\<close>

datatype json =
    JNull
  | JBool bool
  | JNum int
  | JStr string
  | JId oid
  | JDate date
  | JArr "json list"
  | JObj "(string \<times> json) list"

record response =
  status :: nat
  body :: json

text \<open>\<^verbatim>\<open>res.status(c).json(b)\<close>; \<^verbatim>\<open>res.json(b)\<close> is \<open>send 200 b\<close>.\<close>

definition send :: "nat \<Rightarrow> json \<Rightarrow> response" where
  "send c b = \<lparr>status = c, body = b\<rparr>"

definition error_body :: "string \<Rightarrow> json" where
  "error_body m = JObj [(''error'', JStr m)]"

definition message_body :: "string \<Rightarrow> json" where
  "message_body m = JObj [(''message'', JStr m)]"

text \<open>The names of the fields of a JSON object, in order.\<close>

fun field_names :: "json \<Rightarrow> string list" where
  "field_names (JObj kvs) = map fst kvs"
| "field_names _ = []"

fun field :: "string \<Rightarrow> json \<Rightarrow> json option" where
  "field k (JObj kvs) = map_of kvs k"
| "field k _ = None"

text \<open>The elements of a JSON array.\<close>

definition elements :: "json \<Rightarrow> json list" where
  "elements j = (case j of JArr xs \<Rightarrow> xs | _ \<Rightarrow> [])"

text \<open>
  JavaScript's \<^verbatim>\<open>!x\<close> on an optional string (\<^verbatim>\<open>undefined\<close> and the empty string
  are falsy), on an optional number, and on an optional JSON value: \<^verbatim>\<open>undefined\<close>,
  \<^verbatim>\<open>null\<close>, \<^verbatim>\<open>false\<close>, \<^verbatim>\<open>0\<close> and the empty string are falsy, every other
  value (a non-empty string such as \<^verbatim>\<open>"false"\<close>, an array, an object) is truthy.
\<close>

definition falsy :: "string option \<Rightarrow> bool" where
  "falsy v = (v = None \<or> v = Some [])"

definition falsy_num :: "nat option \<Rightarrow> bool" where
  "falsy_num v = (v = None \<or> v = Some 0)"

definition falsy_json :: "json option \<Rightarrow> bool" where
  "falsy_json v = (v = None \<or> v = Some JNull \<or> v = Some (JBool False) \<or> v = Some (JNum 0)
                   \<or> v = Some (JStr []))"

text \<open>
  \<^verbatim>\<open>new Date(n)\<close> for a number of milliseconds: beyond 8640000000000000 the result is
  an Invalid Date (\<open>None\<close>), which the \<^verbatim>\<open>Date\<close> cast of a schema path rejects.
\<close>

definition new_Date :: "nat \<Rightarrow> date option" where
  "new_Date n = (if n \<le> 8640000000000000 then Some n else None)"

text \<open>
  Modelled from the spec: \<^verbatim>\<open>models/User.js\<close> is not among the sources. The fields
  are those of the spec's data model (id, username, email, password hash, isAdmin with
  default false) together with the creation time that the admin listing sorts by.
\<close>

record user =
  u_id :: oid
  u_username :: string
  u_email :: string
  u_password :: string
  u_isAdmin :: bool
  u_createdAt :: date

text \<open>
  \<^verbatim>\<open>src/models/Post.js\<close>. The author path is \<^verbatim>\<open>Mixed\<close>: the handlers store
  either a user's id or the string they were given.
\<close>

datatype author = AuthorRef oid | AuthorName string

record post =
  p_id :: oid
  p_title :: string
  p_content :: string
  p_author :: author
  p_category :: string
  p_createdAt :: date
  p_updatedAt :: date
  p_thumbnail :: "string option"
  p_images :: "string list"
  p_keywords :: "string option"
  p_subtitle :: "string option"
  p_authorGmail :: "string option"

text \<open>
  The store: the users and the posts in insertion order (the feedback collection is not
  needed below), the next identity the driver hands out, and whether the connection opened
  by \<^verbatim>\<open>mongoose.connect\<close> is up.
\<close>

record store =
  users :: "user list"
  posts :: "post list"
  next_id :: oid
  connected :: bool

text \<open>What a model operation throws; every handler catches it and answers 500.\<close>

datatype store_error = StoreUnavailable | CastError

text \<open>
  The \<^verbatim>\<open>:id\<close> segment of a path as the model's cast to an identity sees it: a
  well-formed identity, or a string that is none (the cast throws).
\<close>

datatype id_param = ObjectId oid | Malformed

text \<open>
  The environment of one request: the clock and the password hasher (bcrypt, an external
  collaborator: its salted hash and its comparison are parameters).
\<close>

record env =
  now :: date
  bcrypt_hash :: "string \<Rightarrow> string"
  bcrypt_compare :: "string \<Rightarrow> string \<Rightarrow> bool"

subsection \<open>Model operations\<close>

text \<open>\<^verbatim>\<open>User.findOne(q)\<close>: the first document that matches.\<close>

definition User_findOne :: "(user \<Rightarrow> bool) \<Rightarrow> store \<Rightarrow> store_error + user option" where
  "User_findOne q s = (if connected s then Inr (find q (users s)) else Inl StoreUnavailable)"

text \<open>\<^verbatim>\<open>user.save()\<close> of a new document.\<close>

definition User_save :: "user \<Rightarrow> store \<Rightarrow> store_error + store" where
  "User_save u s =
     (if connected s then Inr (s\<lparr>users := users s @ [u], next_id := Suc (next_id s)\<rparr>)
      else Inl StoreUnavailable)"

section \<open>Login\<close>

text \<open>The \<^verbatim>\<open>user\<close> object of the login and registration responses.\<close>

definition user_summary :: "user \<Rightarrow> json" where
  "user_summary u =
     JObj [(''id'', JId (u_id u)), (''username'', JStr (u_username u)),
           (''email'', JStr (u_email u)), (''isAdmin'', JBool (u_isAdmin u))]"

record login_body =
  l_email :: "string option"
  l_password :: "string option"

text \<open>\<^verbatim>\<open>POST /api/login\<close>, \<^verbatim>\<open>src/index.js\<close> lines 138 to 164.\<close>

definition post_api_login :: "env \<Rightarrow> login_body \<Rightarrow> store \<Rightarrow> response \<times> store" where
  "post_api_login e b s =
     (if falsy (l_email b) \<or> falsy (l_password b)
      then (send 400 (error_body ''All fields are required.''), s)
      else
        (case User_findOne (\<lambda>u. Some (u_email u) = l_email b) s of
           Inl err \<Rightarrow> (send 500 (error_body ''Server error.''), s)
         | Inr None \<Rightarrow>
             (send 401 (error_body ''In                                                                         valid email or password.''), s)
         | Inr (Some user) \<Rightarrow>
             if \<not> bcrypt_compare e (the (l_password b)) (u_password user)
             then (send 401 (error_body ''Invalid email or password.''), s)
             else (send 200 (JObj [(''message'', JStr ''Login successful.''),
                                   (''user'', user_summary user)]), s)))"

text \<open>
  \<^verbatim>\<open>POST /api/login\<close>, \<^verbatim>\<open>src/unnamed/part_001\<close> lines 256 to 287 (the second
  document of \<^verbatim>\<open>src/index.js\<close> has the same body).
\<close>

definition post_api_login_part001 :: "env \<Rightarrow> login_body \<Rightarrow> store \<Rightarrow> response \<times> store" where
  "post_api_login_part001 e b s =
     (if falsy (l_email b) \<or> falsy (l_password b)
      then (send 400 (error_body ''All fields are required.''), s)
      else
        (case User_findOne (\<lambda>u. Some (u_email u) = l_email b) s of
           Inl err \<Rightarrow> (send 500 (error_body ''Server error.''), s)
         | Inr None \<Rightarrow> (send 401 (error_body ''Invalid email or password.''), s)
         | Inr (Some user) \<Rightarrow>
             if \<not> bcrypt_compare e (the (l_password b)) (u_password user)
             then (send 401 (error_body ''Invalid email or password.''), s)
             else (send 200 (JObj [(''message'', JStr ''Login successful.''),
                                   (''user'', user_summary user)]), s)))"

section \<open>Registration\<close>

record register_body =
  r_name :: "string option"
  r_email :: "string option"
  r_password :: "string option"
  r_isAdmin :: "json option"

text \<open>\<^verbatim>\<open>isAdmin || false\<close>: the value itself when it is truthy.\<close>

definition or_false :: "json option \<Rightarrow> json" where
  "or_false v = (if falsy_json v then JBool False else the v)"

text \<open>
  Modelled from the spec: the \<^verbatim>\<open>isAdmin\<close> path of the absent
  \<^verbatim>\<open>models/User.js\<close> is a boolean. The cast of such a path reads \<^verbatim>\<open>true\<close>,
  \<^verbatim>\<open>1\<close>, \<^verbatim>\<open>"true"\<close>, \<^verbatim>\<open>"1"\<close> and \<^verbatim>\<open>"yes"\<close> as true, \<^verbatim>\<open>false\<close>,
  \<^verbatim>\<open>0\<close>, \<^verbatim>\<open>"false"\<close>, \<^verbatim>\<open>"0"\<close> and \<^verbatim>\<open>"no"\<close> as false, and rejects
  every other value the handlers can pass (\<open>None\<close>): the document then carries a
  validation error and \<^verbatim>\<open>user.save()\<close> throws. (A \<^verbatim>\<open>null\<close> is never passed:
  \<^verbatim>\<open>null || false\<close> is \<^verbatim>\<open>false\<close>.)
\<close>

fun cast_boolean :: "json \<Rightarrow> bool option" where
  "cast_boolean (JBool x) = Some x"
| "cast_boolean (JNum n) = (if n = 1 then Some True else if n = 0 then Some False else None)"
| "cast_boolean (JStr t) =
     (if t = ''true'' \<or> t = ''1'' \<or> t = ''yes'' then Some True
      else if t = ''false'' \<or> t = ''0'' \<or> t = ''no'' then Some False
      else None)"
| "cast_boolean _ = None"

text \<open>
  \<^verbatim>\<open>POST /api/register\<close>, \<^verbatim>\<open>src/index.js\<close> lines 92 to 134. The document is
  built by \<^verbatim>\<open>new User\<close> with the cast of its \<^verbatim>\<open>isAdmin\<close>; when the cast rejects
  the value, \<^verbatim>\<open>user.save()\<close> throws, the catch answers 500 and nothing is stored.
\<close>

definition post_api_register :: "env \<Rightarrow> register_body \<Rightarrow> store \<Rightarrow> response \<times> store" where
  "post_api_register e b s =
     (if falsy (r_name b) \<or> falsy (r_email b) \<or> falsy (r_password b)
      then (send 400 (error_body ''All fields are required.''), s)
      else
        (case User_findOne (\<lambda>u. Some (u_email u) = r_email b) s of
           Inl err \<Rightarrow> (send 500 (error_body ''Server error.''), s)
         | Inr (Some emailExist) \<Rightarrow> (send 400 (error_body ''Email already registered.''), s)
         | Inr None \<Rightarrow>
             (case User_findOne (\<lambda>u. Some (u_username u) = r_name b) s of
                Inl err \<Rightarrow> (send 500 (error_body ''Server error.''), s)
              | Inr (Some usernameExist) \<Rightarrow>
                  (send 400 (error_body ''Username already taken.''), s)
              | Inr None \<Rightarrow>
                  (let hashedPassword = bcrypt_hash e (the (r_password b))
                   in case cast_boolean (or_false (r_isAdmin b)) of
                        None \<Rightarrow> (send 500 (error_body ''Server error.''), s)
                      | Some admin \<Rightarrow>
                          (let user = \<lparr>u_id = next_id s, u_username = the (r_name b),
                                         u_email = the (r_email b), u_password = hashedPassword,
                                         u_isAdmin = admin, u_createdAt = now e\<rparr>
                           in case User_save user s of
                                Inl err \<Rightarrow> (send 500 (error_body ''Server error.''), s)
                              | Inr s' \<Rightarrow>
                                  (send 201
                                     (JObj [(''message'', JStr ''User registered successfully.''),
                                            (''user'', user_summary user)]), s'))))))"

text \<open>
  \<^verbatim>\<open>POST /api/register\<close>, \<^verbatim>\<open>src/unnamed/part_001\<close> lines 215 to 252 (the second
  document of \<^verbatim>\<open>src/index.js\<close> has the same body): no check of the username.
\<close>

definition post_api_register_part001 ::
  "env \<Rightarrow> register_body \<Rightarrow> store \<Rightarrow> response \<times> store" where
  "post_api_register_part001 e b s =
     (if falsy (r_name b) \<or> falsy (r_email b) \<or> falsy (r_password b)
      then (send 400 (error_body ''All fields are required.''), s)
      else
        (case User_findOne (\<lambda>u. Some (u_email u) = r_email b) s of
           Inl err \<Rightarrow> (send 500 (error_body ''Server error.''), s)
         | Inr (Some existingUser) \<Rightarrow> (send 400 (error_body ''Email already registered.''), s)
         | Inr None \<Rightarrow>
             (let hashedPassword = bcrypt_hash e (the (r_password b))
              in case cast_boolean (or_false (r_isAdmin b)) of
                   None \<Rightarrow> (send 500 (error_body ''Server error.''), s)
                 | Some admin \<Rightarrow>
                     (let user = \<lparr>u_id = next_id s, u_username = the (r_name b),
                                    u_email = the (r_email b), u_password = hashedPassword,
                                    u_isAdmin = admin, u_createdAt = now e\<rparr>
                      in case User_save user s of
                           Inl err \<Rightarrow> (send 500 (error_body ''Server error.''), s)
                         | Inr s' \<Rightarrow>
                             (send 201
                                (JObj [(''message'', JStr ''User registered successfully.''),
                                       (''user'', user_summary user)]), s')))))"

text \<open>
  \<^verbatim>\<open>POST /api/register\<close>, \<^verbatim>\<open>src/unnamed/part_000\<close> lines 116 to 136: the body's
  \<^verbatim>\<open>isAdmin\<close> is not read (the schema's default, false, is stored), and the answer is
  the message alone.
\<close>

definition post_api_register_part000 ::
  "env \<Rightarrow> register_body \<Rightarrow> store \<Rightarrow> response \<times> store" where
  "post_api_register_part000 e b s =
     (if falsy (r_name b) \<or> falsy (r_email b) \<or> falsy (r_password b)
      then (send 400 (error_body ''All fields are required.''), s)
      else
        (case User_findOne (\<lambda>u. Some (u_email u) = r_email b) s of
           Inl err \<Rightarrow> (send 500 (error_body ''Server error.''), s)
         | Inr (Some existingUser) \<Rightarrow> (send 400 (error_body ''Email already registered.''), s)
         | Inr None \<Rightarrow>
             (let hashedPassword = bcrypt_hash e (the (r_password b));
                  user = \<lparr>u_id = next_id s, u_username = the (r_name b),
                          u_email = the (r_email b), u_password = hashedPassword,
                          u_isAdmin = False, u_createdAt = now e\<rparr>
              in case User_save user s of
                   Inl err \<Rightarrow> (send 500 (error_body ''Server error.''), s)
                 | Inr s' \<Rightarrow> (send 201 (message_body ''User registered successfully.''), s'))))"

section \<open>Admin listing of the users\<close>

text \<open>A stored user as the document the driver returns.\<close>

definition user_document :: "user \<Rightarrow> (string \<times> json) list" where
  "user_document u =
     [(''_id'', JId (u_id u)), (''username'', JStr (u_username u)),
      (''email'', JStr (u_email u)), (''password'', JStr (u_password u)),
      (''isAdmin'', JBool (u_isAdmin u)), (''createdAt'', JDate (u_createdAt u))]"

text \<open>The projection \<^verbatim>\<open>{ k: 0 }\<close>.\<close>

definition exclude_field :: "string \<Rightarrow> (string \<times> json) list \<Rightarrow> (string \<times> json) list" where
  "exclude_field k doc = filter (\<lambda>kv. fst kv \<noteq> k) doc"

text \<open>The sort \<^verbatim>\<open>{ createdAt: -1 }\<close>, by insertion.\<close>

fun insert_desc :: "user \<Rightarrow> user list \<Rightarrow> user list" where
  "insert_desc u [] = [u]"
| "insert_desc u (v # vs) =
     (if u_createdAt v \<le> u_createdAt u then u # v # vs else v # insert_desc u vs)"

definition sort_createdAt_desc :: "user list \<Rightarrow> user list" where
  "sort_createdAt_desc us = foldr insert_desc us []"

text \<open>\<^verbatim>\<open>User.find({}, { password: 0 }).sort({ createdAt: -1 })\<close>.\<close>

definition User_find_listing :: "store \<Rightarrow> store_error + (string \<times> json) list list" where
  "User_find_listing s =
     (if connected s
      then Inr (map (\<lambda>u. exclude_field ''password'' (user_document u))
                  (sort_createdAt_desc (users s)))
      else Inl StoreUnavailable)"

record listing_request =
  query_isAdmin :: "string option"
  header_x_admin :: "string option"

text \<open>
  \<^verbatim>\<open>GET /api/register\<close>, \<^verbatim>\<open>src/index.js\<close> lines 75 to 89
  (\<^verbatim>\<open>src/unnamed/part_001\<close> lines 197 to 212 have the same body).
\<close>

definition get_api_register :: "listing_request \<Rightarrow> store \<Rightarrow> response \<times> store" where
  "get_api_register r s =
     (let isAdmin = (query_isAdmin r = Some ''true'' \<or> header_x_admin r = Some ''true'')
      in if \<not> isAdmin
         then (send 403 (error_body ''Access denied. Admins only.''), s)
         else (case User_find_listing s of
                 Inl err \<Rightarrow> (send 500 (error_body ''Server error fetching users.''), s)
               | Inr docs \<Rightarrow> (send 200 (JArr (map JObj docs)), s)))"

section \<open>Posts\<close>

text \<open>
  The body of a post request: the paths of the post schema, each optional. The creation
  handler reads the fields it destructures; the update handler hands the whole body to the
  model.
\<close>

record post_fields =
  f_title :: "string option"
  f_content :: "string option"
  f_author :: "string option"
  f_category :: "string option"
  f_createdAt :: "date option"
  f_updatedAt :: "date option"
  f_thumbnail :: "string option"
  f_images :: "string list option"
  f_keywords :: "string option"
  f_subtitle :: "string option"
  f_authorGmail :: "string option"

text \<open>\<^verbatim>\<open>post.save()\<close> of a new document.\<close>

definition Post_save :: "post \<Rightarrow> store \<Rightarrow> store_error + store" where
  "Post_save p s =
     (if connected s then Inr (s\<lparr>posts := posts s @ [p], next_id := Suc (next_id s)\<rparr>)
      else Inl StoreUnavailable)"

text \<open>
  \<^verbatim>\<open>POST /api/posts\<close>, \<^verbatim>\<open>src/index.js\<close> lines 195 to 225
  (\<^verbatim>\<open>src/unnamed/part_000\<close> lines 66 to 99 have the same body). The paths
  \<^verbatim>\<open>createdAt\<close> and \<^verbatim>\<open>updatedAt\<close> default to the clock, \<^verbatim>\<open>images\<close> to
  the empty list. When \<^verbatim>\<open>new Date(createdAt)\<close> is an Invalid Date the \<^verbatim>\<open>Date\<close>
  cast of the path rejects it and \<^verbatim>\<open>post.save()\<close> throws: the catch answers 500 and
  nothing is stored.
\<close>

definition post_api_posts :: "env \<Rightarrow> post_fields \<Rightarrow> store \<Rightarrow> response \<times> store" where
  "post_api_posts e b s =
     (if falsy (f_title b) \<or> falsy (f_content b) \<or> falsy (f_author b) \<or> falsy (f_category b)
      then (send 400 (error_body ''Missing required fields.''), s)
      else
        (case User_findOne (\<lambda>u. Some (u_username u) = f_author b) s of
           Inl err \<Rightarrow> (send 500 (error_body ''Server error.''), s)
         | Inr authorDoc \<Rightarrow>
             (let authorValue = (case authorDoc of
                                   Some d \<Rightarrow> AuthorRef (u_id d)
                                 | None \<Rightarrow> AuthorName (the (f_author b)));
                  createdAt = (if falsy_num (f_createdAt b) then Some (now e)
                               else new_Date (the (f_createdAt b)))
              in case createdAt of
                   None \<Rightarrow> (send 500 (error_body ''Server error.''), s)
                 | Some created \<Rightarrow>
                     (let post = \<lparr>p_id = next_id s,
                                    p_title = the (f_title b),
                                    p_content = the (f_content b),
                                    p_author = authorValue,
                                    p_category = the (f_category b),
                                    p_createdAt = created,
                                    p_updatedAt = now e,
                                    p_thumbnail = f_thumbnail b,
                                    p_images = (case f_images b of None \<Rightarrow> []
                                                | Some imgs \<Rightarrow> imgs),
                                    p_keywords = f_keywords b,
                                    p_subtitle = f_subtitle b,
                                    p_authorGmail = f_authorGmail b\<rparr>
                      in case Post_save post s of
                           Inl err \<Rightarrow> (send 500 (error_body ''Server error.''), s)
                         | Inr s' \<Rightarrow>
                             (send 201 (message_body ''Post created successfully.''), s')))))"

text \<open>
  The update document of \<^verbatim>\<open>findByIdAndUpdate\<close> without operators is a
  \<^verbatim>\<open>$set\<close>: every path the body gives is written, every other path is kept. A string
  given for the author stays a string.
\<close>

definition overlay :: "post_fields \<Rightarrow> post \<Rightarrow> post" where
  "overlay b p =
     p\<lparr>p_title := (case f_title b of Some v \<Rightarrow> v | None \<Rightarrow> p_title p),
       p_content := (case f_content b of Some v \<Rightarrow> v | None \<Rightarrow> p_content p),
       p_author := (case f_author b of Some v \<Rightarrow> AuthorName v | None \<Rightarrow> p_author p),
       p_category := (case f_category b of Some v \<Rightarrow> v | None \<Rightarrow> p_category p),
       p_createdAt := (case f_createdAt b of Some v \<Rightarrow> v | None \<Rightarrow> p_createdAt p),
       p_updatedAt := (case f_updatedAt b of Some v \<Rightarrow> v | None \<Rightarrow> p_updatedAt p),
       p_thumbnail := (case f_thumbnail b of Some v \<Rightarrow> Some v | None \<Rightarrow> p_thumbnail p),
       p_images := (case f_images b of Some v \<Rightarrow> v | None \<Rightarrow> p_images p),
       p_keywords := (case f_keywords b of Some v \<Rightarrow> Some v | None \<Rightarrow> p_keywords p),
       p_subtitle := (case f_subtitle b of Some v \<Rightarrow> Some v | None \<Rightarrow> p_subtitle p),
       p_authorGmail := (case f_authorGmail b of Some v \<Rightarrow> Some v
                         | None \<Rightarrow> p_authorGmail p)\<rparr>"

text \<open>The first document that matches is the one written.\<close>

fun update_first :: "(post \<Rightarrow> bool) \<Rightarrow> (post \<Rightarrow> post) \<Rightarrow> post list \<Rightarrow> post list" where
  "update_first q f [] = []"
| "update_first q f (p # ps) = (if q p then f p # ps else p # update_first q f ps)"

text \<open>
  The cast of the update document: a \<^verbatim>\<open>createdAt\<close> or an \<^verbatim>\<open>updatedAt\<close> that is no
  date is rejected.
\<close>

definition dates_castable :: "post_fields \<Rightarrow> bool" where
  "dates_castable b =
     ((case f_createdAt b of None \<Rightarrow> True | Some n \<Rightarrow> new_Date n = Some n)
      \<and> (case f_updatedAt b of None \<Rightarrow> True | Some n \<Rightarrow> new_Date n = Some n))"

text \<open>
  \<^verbatim>\<open>Post.findByIdAndUpdate(id, body, { new: true })\<close>: the document after the update,
  or null when no document has the id. The id and the body are cast before the store is
  asked: a failing cast throws and nothing is written.
\<close>

definition Post_findByIdAndUpdate ::
  "id_param \<Rightarrow> post_fields \<Rightarrow> store \<Rightarrow> store_error + (post option \<times> store)" where
  "Post_findByIdAndUpdate i b s =
     (case i of
        Malformed \<Rightarrow> Inl CastError
      | ObjectId k \<Rightarrow>
          if \<not> dates_castable b then Inl CastError
          else if \<not> connected s then Inl StoreUnavailable
          else (case find (\<lambda>p. p_id p = k) (posts s) of
                  None \<Rightarrow> Inr (None, s)
                | Some p \<Rightarrow>
                    Inr (Some (overlay b p),
                         s\<lparr>posts := update_first (\<lambda>p. p_id p = k) (overlay b) (posts s)\<rparr>)))"

text \<open>
  \<^verbatim>\<open>PUT /api/posts/:id\<close>, \<^verbatim>\<open>src/index.js\<close> lines 166 to 174
  (\<^verbatim>\<open>src/unnamed/part_000\<close> lines 31 to 39 have the same body).
\<close>

definition put_api_posts :: "id_param \<Rightarrow> post_fields \<Rightarrow> store \<Rightarrow> response \<times> store" where
  "put_api_posts i b s =
     (case Post_findByIdAndUpdate i b s of
        Inl err \<Rightarrow> (send 500 (error_body ''Server error.''), s)
      | Inr (None, s') \<Rightarrow> (send 404 (error_body ''Post not found.''), s')
      | Inr (Some post, s') \<Rightarrow> (send 200 (message_body ''Post updated successfully.''), s'))"

text \<open>\<^verbatim>\<open>Post.findByIdAndDelete(id)\<close>: the document removed, or null.\<close>

definition Post_findByIdAndDelete ::
  "id_param \<Rightarrow> store \<Rightarrow> store_error + (post option \<times> store)" where
  "Post_findByIdAndDelete i s =
     (case i of
        Malformed \<Rightarrow> Inl CastError
      | ObjectId k \<Rightarrow>
          if \<not> connected s then Inl StoreUnavailable
          else (case find (\<lambda>p. p_id p = k) (posts s) of
                  None \<Rightarrow> Inr (None, s)
                | Some p \<Rightarrow> Inr (Some p, s\<lparr>posts := remove1 p (posts s)\<rparr>)))"

text \<open>\<^verbatim>\<open>DELETE /api/posts/:id\<close>, \<^verbatim>\<open>src/index.js\<close> lines 176 to 184.\<close>

definition delete_api_posts :: "id_param \<Rightarrow> store \<Rightarrow> response \<times> store" where
  "delete_api_posts i s =
     (case Post_findByIdAndDelete i s of
        Inl err \<Rightarrow> (send 500 (error_body ''Server error.''), s)
      | Inr (None, s') \<Rightarrow> (send 404 (error_body ''Post not found.''), s')
      | Inr (Some post, s') \<Rightarrow> (send 200 (message_body ''Post deleted successfully.''), s'))"

text \<open>
  A stored post as the JSON document \<^verbatim>\<open>res.json\<close> sends; an unset path is left out,
  and the version key the model adds is 0 (no handler changes it).
\<close>

definition optional_field :: "string \<Rightarrow> string option \<Rightarrow> (string \<times> json) list" where
  "optional_field k v = (case v of None \<Rightarrow> [] | Some x \<Rightarrow> [(k, JStr x)])"

definition author_json :: "author \<Rightarrow> json" where
  "author_json a = (case a of AuthorRef i \<Rightarrow> JId i | AuthorName n \<Rightarrow> JStr n)"

definition post_document :: "post \<Rightarrow> json" where
  "post_document p =
     JObj ([(''_id'', JId (p_id p)), (''title'', JStr (p_title p)),
            (''content'', JStr (p_content p)), (''author'', author_json (p_author p)),
            (''category'', JStr (p_category p)), (''createdAt'', JDate (p_createdAt p)),
            (''updatedAt'', JDate (p_updatedAt p))]
           @ optional_field ''thumbnail'' (p_thumbnail p)
           @ [(''images'', JArr (map JStr (p_images p)))]
           @ optional_field ''keywords'' (p_keywords p)
           @ optional_field ''subtitle'' (p_subtitle p)
           @ optional_field ''authorGmail'' (p_authorGmail p)
           @ [(''__v'', JNum 0)])"

text \<open>\<^verbatim>\<open>GET /api/posts\<close>, \<^verbatim>\<open>src/index.js\<close> lines 186 to 193.\<close>

definition get_api_posts :: "store \<Rightarrow> response \<times> store" where
  "get_api_posts s =
     (if connected s then (send 200 (JArr (map post_document (posts s))), s)
      else (send 500 (error_body ''Server error.''), s))"

text \<open>
  The identities of the stored posts are distinct and were all handed out already: what
  the driver guarantees for the identities it assigns.
\<close>

definition post_ids_fresh :: "store \<Rightarrow> bool" where
  "post_ids_fresh s = (distinct (map p_id (posts s)) \<and> list_all (\<lambda>p. p_id p < next_id s) (posts s))"

section \<open>Sample data\<close>

text \<open>A store with two users and two posts, used to run the handlers on concrete requests.\<close>

definition sample_env :: env where
  "sample_env = \<lparr>now = 1000, bcrypt_hash = (\<lambda>p. ''salted:'' @ p),
                  bcrypt_compare = (\<lambda>p h. h = ''salted:'' @ p)\<rparr>"

definition ann :: user where
  "ann = \<lparr>u_id = 0, u_username = ''ann'', u_email = ''ann@x.com'',
          u_password = ''salted:secret'', u_isAdmin = False, u_createdAt = 10\<rparr>"

definition bob :: user where
  "bob = \<lparr>u_id = 1, u_username = ''bob'', u_email = ''bob@x.com'',
          u_password = ''salted:hunter2'', u_isAdmin = True, u_createdAt = 20\<rparr>"

definition first_post :: post where
  "first_post = \<lparr>p_id = 2, p_title = ''Hello'', p_content = ''First words'',
                 p_author = AuthorRef 0, p_category = ''news'', p_createdAt = 30,
                 p_updatedAt = 30, p_thumbnail = None, p_images = [],
                 p_keywords = Some ''hello'', p_subtitle = None, p_authorGmail = None\<rparr>"

definition second_post :: post where
  "second_post = \<lparr>p_id = 3, p_title = ''Again'', p_content = ''More words'',
                  p_author = AuthorName ''guest'', p_category = ''misc'', p_createdAt = 40,
                  p_updatedAt = 40, p_thumbnail = None, p_images = [''a.png''],
                  p_keywords = None, p_subtitle = None, p_authorGmail = None\<rparr>"

definition sample_store :: store where
  "sample_store = \<lparr>users = [ann, bob], posts = [first_post, second_post],
                    next_id = 4, connected = True\<rparr>"

text \<open>A registration with a fresh email and a fresh name that asks for the admin flag.\<close>

definition carol_request :: register_body where
  "carol_request = \<lparr>r_name = Some ''carol'', r_email = Some ''carol@x.com'',
                     r_password = Some ''pw'', r_isAdmin = Some (JBool True)\<rparr>"

text \<open>A registration with a fresh email and a fresh name whose \<^verbatim>\<open>isAdmin\<close> is \<open>v\<close>.\<close>

definition flag_request :: "json \<Rightarrow> register_body" where
  "flag_request v = \<lparr>r_name = Some ''dora'', r_email = Some ''dora@x.com'',
                      r_password = Some ''pw'', r_isAdmin = Some v\<rparr>"

text \<open>The empty body \<^verbatim>\<open>{}\<close>.\<close>

definition no_fields :: post_fields where
  "no_fields = \<lparr>f_title = None, f_content = None, f_author = None, f_category = None,
                 f_createdAt = None, f_updatedAt = None, f_thumbnail = None, f_images = None,
                 f_keywords = None, f_subtitle = None, f_authorGmail = None\<rparr>"




definition hello_request :: post_fields where
  "hello_request = no_fields\<lparr>f_title := Some ''T'', f_content := Some ''C'',
                              f_author := Some ''bob'', f_category := Some ''news''\<rparr>"

definition guest_request :: post_fields where
  "guest_request = no_fields\<lparr>f_title := Some ''T'', f_content := Some ''C'',
                              f_author := Some ''zoe'', f_category := Some ''news'',
                              f_createdAt := Some 70\<rparr>"

section \<open>Auxiliary facts\<close>

lemma falsy_simps:
  "falsy None" "falsy (Some v) = (v = [])"
  by (simp_all add: falsy_def)

lemma find_None_iff_all: "(find q xs = None) = (\<forall>x\<in>set xs. \<not> q x)"
  by (induction xs) auto

lemma find_Some_sat: "find q xs = Some x \<Longrightarrow> x \<in> set xs \<and> q x"
  by (induction xs) (auto split: if_splits)

lemma find_Some_ex: "\<exists>x\<in>set xs. q x \<Longrightarrow> \<exists>y. find q xs = Some y"
  by (cases "find q xs") (auto simp: find_None_iff_all)

lemma or_false_falsy: "falsy_json v \<Longrightarrow> or_false v = JBool False"
  by (simp add: or_false_def)

lemma or_false_truthy: "\<not> falsy_json (Some x) \<Longrightarrow> or_false (Some x) = x"
  by (simp add: or_false_def)

lemma or_false_not_null: "or_false v \<noteq> JNull"
  by (cases v) (auto simp: or_false_def falsy_json_def)

lemma cast_boolean_of_boolean:
  "cast_boolean (or_false None) = Some False"
  "cast_boolean (or_false (Some (JBool x))) = Some x"
  by (cases x; simp add: or_false_def falsy_json_def)+


lemma sample_users_email: "\<forall>u\<in>set (users sample_store). u_email u \<noteq> ''carol@x.com''"
  by (simp add: sample_store_def ann_def bob_def)

lemma sample_users_username: "\<forall>u\<in>set (users sample_store). u_username u \<noteq> ''carol''"
  by (simp add: sample_store_def ann_def bob_def)

lemma sample_connected: "connected sample_store"
  by (simp add: sample_store_def)

lemma find_unique:
  "distinct (map f xs) \<Longrightarrow> x \<in> set xs \<Longrightarrow> find (\<lambda>y. f y = f x) xs = Some x"
proof (induction xs)
  case Nil
  then show ?case by simp
next
  case (Cons a xs)
  show ?case
  proof (cases "a = x")
    case True
    then show ?thesis by simp
  next
    case False
    with Cons.prems have "x \<in> set xs" by simp
    with Cons.prems have "f a \<noteq> f x" by force
    with Cons \<open>x \<in> set xs\<close> show ?thesis by simp
  qed
qed

lemmas sample_defs = sample_store_def sample_env_def ann_def bob_def first_post_def
  second_post_def no_fields_def

section \<open>Login: the two failures\<close>

text \<open>
  In \<^verbatim>\<open>src/unnamed/part_001\<close> every 401 of the login handler is the same response,
  whichever of its two branches sent it.
\<close>

lemma post_api_login_part001_failures_agree:
  assumes "connected s" "\<not> falsy (l_email b)" "\<not> falsy (l_password b)"
    and "status (fst (post_api_login_part001 e b s)) = 401"
  shows "fst (post_api_login_part001 e b s) = send 401 (error_body ''Invalid email or password.'')"
  using assms
  by (auto simp: post_api_login_part001_def User_findOne_def send_def
      split: option.splits if_splits)

text \<open>The message of line 146 of \<^verbatim>\<open>src/index.js\<close>, letter by letter.\<close>

lemma unknown_email_message:
  "''In                                                                         valid email or password.''
     = ''In'' @ replicate 73 (CHR '' '') @ ''valid email or password.''"
  by code_simp

text \<open>
  The two 401 branches of \<^verbatim>\<open>src/index.js\<close> on any request: the message depends on the
  branch.
\<close>

lemma post_api_login_unknown_email:
  assumes "connected s" "l_email b = Some m" "m \<noteq> []" "\<not> falsy (l_password b)"
    and "m \<notin> set (map u_email (users s))"
  shows "post_api_login e b s
           = (send 401 (error_body ''In                                                                         valid email or password.''), s)"
proof -
  have "find (\<lambda>u. Some (u_email u) = l_email b) (users s) = None"
    using assms(2,5) by (auto simp: find_None_iff_all)
  then show ?thesis
    using assms(1-4) by (simp add: post_api_login_def User_findOne_def falsy_simps)
qed

lemma post_api_login_wrong_password:
  assumes "connected s" "\<not> falsy (l_email b)" "l_password b = Some pw" "pw \<noteq> []"
    and "find (\<lambda>u. Some (u_email u) = l_email b) (users s) = Some u"
    and "\<not> bcrypt_compare e pw (u_password u)"
  shows "post_api_login e b s = (send 401 (error_body ''Invalid email or password.''), s)"
  using assms by (simp add: post_api_login_def User_findOne_def falsy_simps)

text \<open>
  C1. The claim: a login with an unregistered email and a login with a registered email and
  a wrong password both answer 401 with the same error message. In \<^verbatim>\<open>src/index.js\<close>
  both answer 401, but the message of the unknown-email branch (line 146) has 73 spaces
  between \<^verbatim>\<open>In\<close> and \<^verbatim>\<open>valid\<close>, so the two responses differ: evaluated here on
  the sample store, where \<^verbatim>\<open>nobody@x.com\<close> is not registered and \<^verbatim>\<open>ann@x.com\<close>
  is registered with another password.
\<close>

theorem post_api_login_failure_messages:
  "fst (post_api_login sample_env \<lparr>l_email = Some ''nobody@x.com'', l_password = Some ''secret''\<rparr>
          sample_store)
     = send 401 (error_body ''In                                                                         valid email or password.'')
   \<and> fst (post_api_login sample_env \<lparr>l_email = Some ''ann@x.com'', l_password = Some ''wrong''\<rparr>
            sample_store)
     = send 401 (error_body ''Invalid email or password.'')
   \<and> fst (post_api_login sample_env \<lparr>l_email = Some ''nobody@x.com'', l_password = Some ''secret''\<rparr>
            sample_store)
     \<noteq> fst (post_api_login sample_env \<lparr>l_email = Some ''ann@x.com'', l_password = Some ''wrong''\<rparr>
            sample_store)"
  by (simp add: post_api_login_def User_findOne_def sample_store_def sample_env_def ann_def
      bob_def falsy_def send_def error_body_def)

section \<open>Registration: rejections, the answer, the admin flag\<close>

text \<open>What a registration that passes every check returns, in each variant.\<close>

lemma post_api_register_created:
  fixes e :: env
  assumes "connected s"
    and "r_name b = Some name" "name \<noteq> []"
    and "r_email b = Some email" "email \<noteq> []"
    and "r_password b = Some pw" "pw \<noteq> []"
    and "\<forall>u\<in>set (users s). u_email u \<noteq> email"
    and "\<forall>u\<in>set (users s). u_username u \<noteq> name"
    and "cast_boolean (or_false (r_isAdmin b)) = Some a"
  defines "c \<equiv> \<lparr>u_id = next_id s, u_username = name, u_email = email,
                  u_password = bcrypt_hash e pw, u_isAdmin = a, u_createdAt = now e\<rparr>"
  shows "post_api_register e b s =
           (send 201 (JObj [(''message'', JStr ''User registered successfully.''),
                            (''user'', user_summary c)]),
            s\<lparr>users := users s @ [c], next_id := Suc (next_id s)\<rparr>)"
proof -
  have "find (\<lambda>u. Some (u_email u) = r_email b) (users s) = None"
    using assms(4,8) by (simp add: find_None_iff_all)
  moreover have "find (\<lambda>u. Some (u_username u) = r_name b) (users s) = None"
    using assms(2,9) by (simp add: find_None_iff_all)
  ultimately show ?thesis
    using assms(1-7,10)
    by (simp add: post_api_register_def User_findOne_def User_save_def falsy_simps
        c_def Let_def)
qed

lemma post_api_register_part001_created:
  fixes e :: env
  assumes "connected s"
    and "r_name b = Some name" "name \<noteq> []"
    and "r_email b = Some email" "email \<noteq> []"
    and "r_password b = Some pw" "pw \<noteq> []"
    and "\<forall>u\<in>set (users s). u_email u \<noteq> email"
    and "cast_boolean (or_false (r_isAdmin b)) = Some a"
  defines "c \<equiv> \<lparr>u_id = next_id s, u_username = name, u_email = email,
                  u_password = bcrypt_hash e pw, u_isAdmin = a, u_createdAt = now e\<rparr>"
  shows "post_api_register_part001 e b s =
           (send 201 (JObj [(''message'', JStr ''User registered successfully.''),
                            (''user'', user_summary c)]),
            s\<lparr>users := users s @ [c], next_id := Suc (next_id s)\<rparr>)"
proof -
  have "find (\<lambda>u. Some (u_email u) = r_email b) (users s) = None"
    using assms(4,8) by (simp add: find_None_iff_all)
  then show ?thesis
    using assms(1-7,9)
    by (simp add: post_api_register_part001_def User_findOne_def User_save_def falsy_simps
        c_def Let_def)
qed

text \<open>A registration whose \<^verbatim>\<open>isAdmin\<close> the cast rejects, after every check has passed.\<close>

lemma post_api_register_cast_fails:
  fixes e :: env
  assumes "connected s"
    and "r_name b = Some name" "name \<noteq> []"
    and "r_email b = Some email" "email \<noteq> []"
    and "r_password b = Some pw" "pw \<noteq> []"
    and "\<forall>u\<in>set (users s). u_email u \<noteq> email"
    and "cast_boolean (or_false (r_isAdmin b)) = None"
  shows "post_api_register_part001 e b s = (send 500 (error_body ''Server error.''), s)"
    and "\<forall>u\<in>set (users s). u_username u \<noteq> name \<Longrightarrow>
         post_api_register e b s = (send 500 (error_body ''Server error.''), s)"
proof -
  have m: "find (\<lambda>u. Some (u_email u) = r_email b) (users s) = None"
    using assms(4,8) by (simp add: find_None_iff_all)
  then show "post_api_register_part001 e b s = (send 500 (error_body ''Server error.''), s)"
    using assms(1-7,9)
    by (simp add: post_api_register_part001_def User_findOne_def falsy_simps Let_def)
  assume "\<forall>u\<in>set (users s). u_username u \<noteq> name"
  then have "find (\<lambda>u. Some (u_username u) = r_name b) (users s) = None"
    using assms(2) by (simp add: find_None_iff_all)
  with m show "post_api_register e b s = (send 500 (error_body ''Server error.''), s)"
    using assms(1-7,9)
    by (simp add: post_api_register_def User_findOne_def falsy_simps Let_def)
qed

lemma post_api_register_part000_created:
  fixes e :: env
  assumes "connected s"
    and "r_name b = Some name" "name \<noteq> []"
    and "r_email b = Some email" "email \<noteq> []"
    and "r_password b = Some pw" "pw \<noteq> []"
    and "\<forall>u\<in>set (users s). u_email u \<noteq> email"
  defines "c \<equiv> \<lparr>u_id = next_id s, u_username = name, u_email = email,
                  u_password = bcrypt_hash e pw, u_isAdmin = False, u_createdAt = now e\<rparr>"
  shows "post_api_register_part000 e b s =
           (send 201 (message_body ''User registered successfully.''),
            s\<lparr>users := users s @ [c], next_id := Suc (next_id s)\<rparr>)"
proof -
  have "find (\<lambda>u. Some (u_email u) = r_email b) (users s) = None"
    using assms(4,8) by (simp add: find_None_iff_all)
  then show ?thesis
    using assms(1-7)
    by (simp add: post_api_register_part000_def User_findOne_def User_save_def falsy_simps
        c_def Let_def)
qed

text \<open>
  C5. A registration whose email is the email of a stored user answers 400 and leaves the
  store as it was, in \<^verbatim>\<open>src/index.js\<close> and in \<^verbatim>\<open>src/unnamed/part_000\<close>; in
  \<^verbatim>\<open>src/index.js\<close> (the latest variant) the same holds when the name is the
  username of a stored user; a request in which the name, the email or the password is
  missing (or empty) answers 400 with the store as it was. The two duplicate checks read
  the store, so they are stated for a store whose connection is up.
\<close>

theorem post_api_register_rejects:
  shows "(falsy (r_name b) \<or> falsy (r_email b) \<or> falsy (r_password b) \<longrightarrow>
            post_api_register e b s = (send 400 (error_body ''All fields are required.''), s)
          \<and> post_api_register_part000 e b s
              = (send 400 (error_body ''All fields are required.''), s))
       \<and> (connected s \<and> (\<exists>u\<in>set (users s). Some (u_email u) = r_email b) \<longrightarrow>
            status (fst (post_api_register e b s)) = 400
          \<and> snd (post_api_register e b s) = s
          \<and> status (fst (post_api_register_part000 e b s)) = 400
          \<and> snd (post_api_register_part000 e b s) = s)
       \<and> (connected s \<and> (\<exists>u\<in>set (users s). Some (u_username u) = r_name b) \<longrightarrow>
            status (fst (post_api_register e b s)) = 400
          \<and> snd (post_api_register e b s) = s)"
proof (intro conjI impI)
  assume "falsy (r_name b) \<or> falsy (r_email b) \<or> falsy (r_password b)"
  then show "post_api_register e b s = (send 400 (error_body ''All fields are required.''), s)"
    and "post_api_register_part000 e b s
           = (send 400 (error_body ''All fields are required.''), s)"
    by (simp_all add: post_api_register_def post_api_register_part000_def)
next
  assume a: "connected s \<and> (\<exists>u\<in>set (users s). Some (u_email u) = r_email b)"
  then obtain y where y: "find (\<lambda>u. Some (u_email u) = r_email b) (users s) = Some y"
    using find_Some_ex [of "users s" "\<lambda>u. Some (u_email u) = r_email b"] by blast
  from a y show "status (fst (post_api_register e b s)) = 400"
    and "snd (post_api_register e b s) = s"
    and "status (fst (post_api_register_part000 e b s)) = 400"
    and "snd (post_api_register_part000 e b s) = s"
    by (simp_all add: post_api_register_def post_api_register_part000_def User_findOne_def
        send_def)
next
  assume a: "connected s \<and> (\<exists>u\<in>set (users s). Some (u_username u) = r_name b)"
  then obtain y where y: "find (\<lambda>u. Some (u_username u) = r_name b) (users s) = Some y"
    using find_Some_ex [of "users s" "\<lambda>u. Some (u_username u) = r_name b"] by blast
  from a y show "status (fst (post_api_register e b s)) = 400"
    and "snd (post_api_register e b s) = s"
    by (simp_all add: post_api_register_def User_findOne_def send_def split: option.splits)
qed

theorem post_api_register_rejects_witness:
  "falsy (r_password \<lparr>r_name = Some ''dan'', r_email = Some ''dan@x.com'', r_password = None,
                       r_isAdmin = None\<rparr>)
   \<and> post_api_register sample_env
        \<lparr>r_name = Some ''dan'', r_email = Some ''dan@x.com'', r_password = None,
         r_isAdmin = None\<rparr> sample_store
      = (send 400 (error_body ''All fields are required.''), sample_store)
   \<and> connected sample_store
   \<and> (\<exists>u\<in>set (users sample_store). Some (u_email u) = Some ''ann@x.com'')
   \<and> status (fst (post_api_register sample_env
        \<lparr>r_name = Some ''dan'', r_email = Some ''ann@x.com'', r_password = Some ''pw'',
         r_isAdmin = None\<rparr> sample_store)) = 400
   \<and> snd (post_api_register_part000 sample_env
        \<lparr>r_name = Some ''dan'', r_email = Some ''ann@x.com'', r_password = Some ''pw'',
         r_isAdmin = None\<rparr> sample_store) = sample_store
   \<and> (\<exists>u\<in>set (users sample_store). Some (u_username u) = Some ''bob'')
   \<and> status (fst (post_api_register sample_env
        \<lparr>r_name = Some ''bob'', r_email = Some ''dan@x.com'', r_password = Some ''pw'',
         r_isAdmin = None\<rparr> sample_store)) = 400
   \<and> snd (post_api_register sample_env
        \<lparr>r_name = Some ''bob'', r_email = Some ''dan@x.com'', r_password = Some ''pw'',
         r_isAdmin = None\<rparr> sample_store) = sample_store"
proof -
  have e: "\<exists>u\<in>set (users sample_store). Some (u_email u) = Some ''ann@x.com''"
    and u: "\<exists>u\<in>set (users sample_store). Some (u_username u) = Some ''bob''"
    by (simp_all add: sample_store_def ann_def bob_def)
  show ?thesis
    using e u sample_connected
      post_api_register_rejects [where e = sample_env and s = sample_store
        and b = "\<lparr>r_name = Some ''dan'', r_email = Some ''dan@x.com'', r_password = None,
                   r_isAdmin = None\<rparr>"]
      post_api_register_rejects [where e = sample_env and s = sample_store
        and b = "\<lparr>r_name = Some ''dan'', r_email = Some ''ann@x.com'', r_password = Some ''pw'',
                   r_isAdmin = None\<rparr>"]
      post_api_register_rejects [where e = sample_env and s = sample_store
        and b = "\<lparr>r_name = Some ''bob'', r_email = Some ''dan@x.com'', r_password = Some ''pw'',
                   r_isAdmin = None\<rparr>"]
    by (simp add: falsy_simps)
qed

text \<open>
  C6, as stated: every successful registration answers 201 with the created user's id,
  username, email and isAdmin. The handler of \<^verbatim>\<open>src/unnamed/part_000\<close> (lines 127
  to 135) answers a successful registration with the message alone: on the sample store
  the registration of carol stores the user and the body has the one field
  \<^verbatim>\<open>message\<close>.
\<close>

theorem post_api_register_part000_body_counterexample:
  "status (fst (post_api_register_part000 sample_env
      \<lparr>r_name = Some ''carol'', r_email = Some ''carol@x.com'', r_password = Some ''pw'',
       r_isAdmin = None\<rparr> sample_store)) = 201
   \<and> users (snd (post_api_register_part000 sample_env
      \<lparr>r_name = Some ''carol'', r_email = Some ''carol@x.com'', r_password = Some ''pw'',
       r_isAdmin = None\<rparr> sample_store))
      = [ann, bob, \<lparr>u_id = 4, u_username = ''carol'', u_email = ''carol@x.com'',
                    u_password = ''salted:pw'', u_isAdmin = False, u_createdAt = 1000\<rparr>]
   \<and> field_names (body (fst (post_api_register_part000 sample_env
      \<lparr>r_name = Some ''carol'', r_email = Some ''carol@x.com'', r_password = Some ''pw'',
       r_isAdmin = None\<rparr> sample_store))) = [''message'']
   \<and> field ''user'' (body (fst (post_api_register_part000 sample_env
      \<lparr>r_name = Some ''carol'', r_email = Some ''carol@x.com'', r_password = Some ''pw'',
       r_isAdmin = None\<rparr> sample_store))) = None"
  by (simp add: post_api_register_part000_def User_findOne_def User_save_def sample_store_def
      sample_env_def ann_def bob_def falsy_def send_def message_body_def)

text \<open>
  C6, amended. For a registration that passes every check on a connected store: in
  \<^verbatim>\<open>src/index.js\<close> and in \<^verbatim>\<open>src/unnamed/part_001\<close> the answer is 201 with a
  message and a \<^verbatim>\<open>user\<close> object whose fields are exactly the id, the username, the
  email and the isAdmin of the user just stored (no password field, hashed or raw); in
  \<^verbatim>\<open>src/unnamed/part_000\<close> the answer is 201 with the message alone. In the first
  two the registration is successful when the body's \<^verbatim>\<open>isAdmin\<close> is absent, a
  boolean, or another value that the cast of the path accepts.
\<close>

theorem post_api_register_success_body:
  fixes e :: env
  assumes "connected s"
    and "r_name b = Some name" "name \<noteq> []"
    and "r_email b = Some email" "email \<noteq> []"
    and "r_password b = Some pw" "pw \<noteq> []"
    and "\<forall>u\<in>set (users s). u_email u \<noteq> email"
  shows "((\<forall>u\<in>set (users s). u_username u \<noteq> name)
          \<and> (r_isAdmin b = None \<or> (\<exists>x. r_isAdmin b = Some (JBool x))
               \<or> (\<exists>a. cast_boolean (or_false (r_isAdmin b)) = Some a)) \<longrightarrow>
           (\<exists>c. users (snd (post_api_register e b s)) = users s @ [c]
              \<and> fst (post_api_register e b s)
                = send 201 (JObj [(''message'', JStr ''User registered successfully.''),
                     (''user'', JObj [(''id'', JId (u_id c)), (''username'', JStr (u_username c)),
                                      (''email'', JStr (u_email c)),
                                      (''isAdmin'', JBool (u_isAdmin c))])])))
       \<and> ((r_isAdmin b = None \<or> (\<exists>x. r_isAdmin b = Some (JBool x))
               \<or> (\<exists>a. cast_boolean (or_false (r_isAdmin b)) = Some a)) \<longrightarrow>
           (\<exists>c. users (snd (post_api_register_part001 e b s)) = users s @ [c]
              \<and> fst (post_api_register_part001 e b s)
                = send 201 (JObj [(''message'', JStr ''User registered successfully.''),
                     (''user'', JObj [(''id'', JId (u_id c)), (''username'', JStr (u_username c)),
                                      (''email'', JStr (u_email c)),
                                      (''isAdmin'', JBool (u_isAdmin c))])])))
       \<and> (\<exists>c. users (snd (post_api_register_part000 e b s)) = users s @ [c]
              \<and> fst (post_api_register_part000 e b s)
                = send 201 (JObj [(''message'', JStr ''User registered successfully.'')]))"
proof (intro conjI impI)
  assume a: "(\<forall>u\<in>set (users s). u_username u \<noteq> name)
          \<and> (r_isAdmin b = None \<or> (\<exists>x. r_isAdmin b = Some (JBool x))
               \<or> (\<exists>a. cast_boolean (or_false (r_isAdmin b)) = Some a))"
  then obtain v where v: "cast_boolean (or_false (r_isAdmin b)) = Some v"
    using cast_boolean_of_boolean by metis
  from a have u: "\<forall>u\<in>set (users s). u_username u \<noteq> name" by blast
  show "\<exists>c. users (snd (post_api_register e b s)) = users s @ [c]
              \<and> fst (post_api_register e b s)
                = send 201 (JObj [(''message'', JStr ''User registered successfully.''),
                     (''user'', JObj [(''id'', JId (u_id c)), (''username'', JStr (u_username c)),
                                      (''email'', JStr (u_email c)),
                                      (''isAdmin'', JBool (u_isAdmin c))])])"
    using post_api_register_created [OF assms u v, where e = e] by (simp add: user_summary_def)
next
  assume "r_isAdmin b = None \<or> (\<exists>x. r_isAdmin b = Some (JBool x))
               \<or> (\<exists>a. cast_boolean (or_false (r_isAdmin b)) = Some a)"
  then obtain v where v: "cast_boolean (or_false (r_isAdmin b)) = Some v"
    using cast_boolean_of_boolean by metis
  show "\<exists>c. users (snd (post_api_register_part001 e b s)) = users s @ [c]
              \<and> fst (post_api_register_part001 e b s)
                = send 201 (JObj [(''message'', JStr ''User registered successfully.''),
                     (''user'', JObj [(''id'', JId (u_id c)), (''username'', JStr (u_username c)),
                                      (''email'', JStr (u_email c)),
                                      (''isAdmin'', JBool (u_isAdmin c))])])"
    using post_api_register_part001_created [OF assms v, where e = e]
    by (simp add: user_summary_def)
next
  show "\<exists>c. users (snd (post_api_register_part000 e b s)) = users s @ [c]
              \<and> fst (post_api_register_part000 e b s)
                = send 201 (JObj [(''message'', JStr ''User registered successfully.'')])"
    using post_api_register_part000_created [OF assms, where e = e] by (simp add: message_body_def)
qed

theorem post_api_register_success_body_witness:
  "connected sample_store
   \<and> ''carol@x.com'' \<notin> set (map u_email (users sample_store))
   \<and> ''carol'' \<notin> set (map u_username (users sample_store))
   \<and> r_isAdmin carol_request = Some (JBool True)
   \<and> (\<exists>c. users (snd (post_api_register sample_env carol_request sample_store))
             = users sample_store @ [c]
          \<and> fst (post_api_register sample_env carol_request sample_store)
             = send 201 (JObj [(''message'', JStr ''User registered successfully.''),
                 (''user'', JObj [(''id'', JId (u_id c)), (''username'', JStr (u_username c)),
                                  (''email'', JStr (u_email c)),
                                  (''isAdmin'', JBool (u_isAdmin c))])]))
   \<and> (\<exists>c. users (snd (post_api_register_part000 sample_env carol_request sample_store))
             = users sample_store @ [c]
          \<and> fst (post_api_register_part000 sample_env carol_request sample_store)
             = send 201 (JObj [(''message'', JStr ''User registered successfully.'')]))"
proof -
  have n: "r_name carol_request = Some ''carol''" "''carol'' \<noteq> []"
    and m: "r_email carol_request = Some ''carol@x.com''" "''carol@x.com'' \<noteq> []"
    and p: "r_password carol_request = Some ''pw''" "''pw'' \<noteq> []"
    and a: "r_isAdmin carol_request = Some (JBool True)"
    by (simp_all add: carol_request_def)
  note t = post_api_register_success_body
             [OF sample_connected n m p sample_users_email, where e = sample_env]
  have f: "''carol@x.com'' \<notin> set (map u_email (users sample_store))"
    "''carol'' \<notin> set (map u_username (users sample_store))"
    by (simp_all add: sample_store_def ann_def bob_def)
  show ?thesis
    using t f a sample_connected sample_users_username by blast
qed

text \<open>
  C8, as stated: a registration whose body has a truthy \<^verbatim>\<open>isAdmin\<close> stores a user
  whose isAdmin is true. The string \<^verbatim>\<open>"false"\<close> is truthy, so
  \<^verbatim>\<open>isAdmin || false\<close> hands it to the model, whose cast reads it as false: on the
  sample store the registration is answered 201 and the stored user is no admin.
\<close>

theorem post_api_register_truthy_isAdmin_counterexample:
  "\<not> falsy_json (r_isAdmin (flag_request (JStr ''false'')))
   \<and> status (fst (post_api_register sample_env (flag_request (JStr ''false'')) sample_store))
       = 201
   \<and> users (snd (post_api_register sample_env (flag_request (JStr ''false'')) sample_store))
       = [ann, bob, \<lparr>u_id = 4, u_username = ''dora'', u_email = ''dora@x.com'',
                     u_password = ''salted:pw'', u_isAdmin = False, u_createdAt = 1000\<rparr>]"
  by (simp add: post_api_register_def User_findOne_def User_save_def sample_store_def
      sample_env_def ann_def bob_def falsy_def falsy_json_def or_false_def flag_request_def
      send_def Let_def)

text \<open>
  C8, amended. For a registration that passes every check on a connected store, in
  \<^verbatim>\<open>src/index.js\<close> (lines 111 to 116) and in \<^verbatim>\<open>src/unnamed/part_001\<close> (lines 230
  to 235), the stored flag is read from the body's \<^verbatim>\<open>isAdmin\<close> alone:
  the boolean \<^verbatim>\<open>true\<close> (and \<^verbatim>\<open>1\<close>, \<^verbatim>\<open>"true"\<close>, \<^verbatim>\<open>"1"\<close>, \<^verbatim>\<open>"yes"\<close>)
  stores an admin; an absent or falsy value, and the truthy strings \<^verbatim>\<open>"false"\<close>,
  \<^verbatim>\<open>"0"\<close> and \<^verbatim>\<open>"no"\<close>, store a user who is no admin; any other truthy value
  (another string, another number, an array, an object) is answered 500 and nothing is
  stored. Here \<open>h\<close> is either of the two handlers.
\<close>

theorem post_api_register_isAdmin:
  fixes e :: env
  assumes "connected s"
    and "r_name b = Some name" "name \<noteq> []"
    and "r_email b = Some email" "email \<noteq> []"
    and "r_password b = Some pw" "pw \<noteq> []"
    and "\<forall>u\<in>set (users s). u_email u \<noteq> email"
    and "(h = post_api_register \<and> (\<forall>u\<in>set (users s). u_username u \<noteq> name))
         \<or> h = post_api_register_part001"
  shows "(r_isAdmin b \<in> {Some (JBool True), Some (JNum 1), Some (JStr ''true''),
                          Some (JStr ''1''), Some (JStr ''yes'')} \<longrightarrow>
            status (fst (h e b s)) = 201
          \<and> (\<exists>c. users (snd (h e b s)) = users s @ [c] \<and> u_isAdmin c))
       \<and> (r_isAdmin b \<in> {None, Some JNull, Some (JBool False), Some (JNum 0), Some (JStr []),
                            Some (JStr ''false''), Some (JStr ''0''), Some (JStr ''no'')} \<longrightarrow>
            status (fst (h e b s)) = 201
          \<and> (\<exists>c. users (snd (h e b s)) = users s @ [c] \<and> \<not> u_isAdmin c))
       \<and> ((\<exists>t. r_isAdmin b = Some (JStr t)
                \<and> t \<notin> {[], ''true'', ''1'', ''yes'', ''false'', ''0'', ''no''})
            \<or> (\<exists>n. r_isAdmin b = Some (JNum n) \<and> n \<noteq> 0 \<and> n \<noteq> 1)
            \<or> (\<exists>xs. r_isAdmin b = Some (JArr xs))
            \<or> (\<exists>kvs. r_isAdmin b = Some (JObj kvs)) \<longrightarrow>
            h e b s = (send 500 (error_body ''Server error.''), s))"
proof -
  have created: "status (fst (h e b s)) = 201
      \<and> (\<exists>c. users (snd (h e b s)) = users s @ [c] \<and> u_isAdmin c = a)"
    if "cast_boolean (or_false (r_isAdmin b)) = Some a" for a
    using assms(9)
  proof
    assume "h = post_api_register \<and> (\<forall>u\<in>set (users s). u_username u \<noteq> name)"
    then show ?thesis
      using post_api_register_created [OF assms(1-8) _ that, where e = e]
      by (simp add: send_def)
  next
    assume "h = post_api_register_part001"
    then show ?thesis
      using post_api_register_part001_created [OF assms(1-8) that, where e = e]
      by (simp add: send_def)
  qed
  have failed: "h e b s = (send 500 (error_body ''Server error.''), s)"
    if "cast_boolean (or_false (r_isAdmin b)) = None"
    using assms(9) post_api_register_cast_fails [OF assms(1-8) that, where e = e]
    by blast
  have 1: "r_isAdmin b \<in> {Some (JBool True), Some (JNum 1), Some (JStr ''true''),
                          Some (JStr ''1''), Some (JStr ''yes'')} \<longrightarrow>
            status (fst (h e b s)) = 201
          \<and> (\<exists>c. users (snd (h e b s)) = users s @ [c] \<and> u_isAdmin c)"
  proof
    assume "r_isAdmin b \<in> {Some (JBool True), Some (JNum 1), Some (JStr ''true''),
                          Some (JStr ''1''), Some (JStr ''yes'')}"
    then have "cast_boolean (or_false (r_isAdmin b)) = Some True"
      by (auto simp: or_false_def falsy_json_def)
    from created [OF this] show "status (fst (h e b s)) = 201
          \<and> (\<exists>c. users (snd (h e b s)) = users s @ [c] \<and> u_isAdmin c)" by simp
  qed
  have 2: "r_isAdmin b \<in> {None, Some JNull, Some (JBool False), Some (JNum 0), Some (JStr []),
                            Some (JStr ''false''), Some (JStr ''0''), Some (JStr ''no'')} \<longrightarrow>
            status (fst (h e b s)) = 201
          \<and> (\<exists>c. users (snd (h e b s)) = users s @ [c] \<and> \<not> u_isAdmin c)"
  proof
    assume "r_isAdmin b \<in> {None, Some JNull, Some (JBool False), Some (JNum 0),
              Some (JStr []), Some (JStr ''false''), Some (JStr ''0''), Some (JStr ''no'')}"
    then have "cast_boolean (or_false (r_isAdmin b)) = Some False"
      by (auto simp: or_false_def falsy_json_def)
    from created [OF this] show "status (fst (h e b s)) = 201
          \<and> (\<exists>c. users (snd (h e b s)) = users s @ [c] \<and> \<not> u_isAdmin c)" by simp
  qed
  have 3: "(\<exists>t. r_isAdmin b = Some (JStr t)
                \<and> t \<notin> {[], ''true'', ''1'', ''yes'', ''false'', ''0'', ''no''})
            \<or> (\<exists>n. r_isAdmin b = Some (JNum n) \<and> n \<noteq> 0 \<and> n \<noteq> 1)
            \<or> (\<exists>xs. r_isAdmin b = Some (JArr xs))
            \<or> (\<exists>kvs. r_isAdmin b = Some (JObj kvs)) \<longrightarrow>
            h e b s = (send 500 (error_body ''Server error.''), s)"
  proof
    assume "(\<exists>t. r_isAdmin b = Some (JStr t)
                \<and> t \<notin> {[], ''true'', ''1'', ''yes'', ''false'', ''0'', ''no''})
            \<or> (\<exists>n. r_isAdmin b = Some (JNum n) \<and> n \<noteq> 0 \<and> n \<noteq> 1)
            \<or> (\<exists>xs. r_isAdmin b = Some (JArr xs))
            \<or> (\<exists>kvs. r_isAdmin b = Some (JObj kvs))"
    then have "cast_boolean (or_false (r_isAdmin b)) = None"
      by (auto simp: or_false_def falsy_json_def)
    from failed [OF this] show "h e b s = (send 500 (error_body ''Server error.''), s)" .
  qed
  from 1 2 3 show ?thesis by blast
qed

theorem post_api_register_isAdmin_witness:
  "connected sample_store
   \<and> ''carol@x.com'' \<notin> set (map u_email (users sample_store))
   \<and> ''carol'' \<notin> set (map u_username (users sample_store))
   \<and> r_isAdmin carol_request = Some (JBool True)
   \<and> status (fst (post_api_register sample_env carol_request sample_store)) = 201
   \<and> (\<exists>c. users (snd (post_api_register sample_env carol_request sample_store))
             = users sample_store @ [c] \<and> u_isAdmin c)
   \<and> ''dora@x.com'' \<notin> set (map u_email (users sample_store))
   \<and> r_isAdmin (flag_request (JStr ''no'')) = Some (JStr ''no'')
   \<and> (\<exists>c. users (snd (post_api_register_part001 sample_env (flag_request (JStr ''no''))
                        sample_store))
             = users sample_store @ [c] \<and> \<not> u_isAdmin c)
   \<and> r_isAdmin (flag_request (JStr ''abc'')) = Some (JStr ''abc'')
   \<and> post_api_register_part001 sample_env (flag_request (JStr ''abc'')) sample_store
       = (send 500 (error_body ''Server error.''), sample_store)"
proof -
  have n: "r_name carol_request = Some ''carol''" "''carol'' \<noteq> []"
    and m: "r_email carol_request = Some ''carol@x.com''" "''carol@x.com'' \<noteq> []"
    and p: "r_password carol_request = Some ''pw''" "''pw'' \<noteq> []"
    and a: "r_isAdmin carol_request = Some (JBool True)"
    by (simp_all add: carol_request_def)
  have dn: "r_name (flag_request v) = Some ''dora''" "''dora'' \<noteq> []"
    and dm: "r_email (flag_request v) = Some ''dora@x.com''" "''dora@x.com'' \<noteq> []"
    and dp: "r_password (flag_request v) = Some ''pw''" "''pw'' \<noteq> []"
    and da: "r_isAdmin (flag_request v) = Some v" for v
    by (simp_all add: flag_request_def)
  have f: "''carol@x.com'' \<notin> set (map u_email (users sample_store))"
    "''carol'' \<notin> set (map u_username (users sample_store))"
    "''dora@x.com'' \<notin> set (map u_email (users sample_store))"
    and g: "\<forall>u\<in>set (users sample_store). u_email u \<noteq> ''dora@x.com''"
    by (simp_all add: sample_store_def ann_def bob_def)
  have h1: "(post_api_register = post_api_register
               \<and> (\<forall>u\<in>set (users sample_store). u_username u \<noteq> ''carol''))
            \<or> post_api_register = post_api_register_part001"
    using sample_users_username by simp
  have h2: "(post_api_register_part001 = post_api_register
               \<and> (\<forall>u\<in>set (users sample_store). u_username u \<noteq> ''dora''))
            \<or> post_api_register_part001 = post_api_register_part001"
    by simp
  note t1 = post_api_register_isAdmin
              [OF sample_connected n m p sample_users_email h1, where e = sample_env]
  note t2 = post_api_register_isAdmin
              [OF sample_connected dn dm dp g h2, where e = sample_env]
  show ?thesis
    using t1 t2 [of "JStr ''no''"] t2 [of "JStr ''abc''"] a da f sample_connected
    by simp
qed

section \<open>Admin listing\<close>

lemma mset_insert_desc: "mset (insert_desc u vs) = add_mset u (mset vs)"
  by (induction vs) auto

lemma set_insert_desc: "set (insert_desc u vs) = insert u (set vs)"
  by (induction vs) auto

lemma sorted_insert_desc:
  "sorted_wrt (\<lambda>a b. u_createdAt b \<le> u_createdAt a) vs \<Longrightarrow>
   sorted_wrt (\<lambda>a b. u_createdAt b \<le> u_createdAt a) (insert_desc u vs)"
  by (induction vs) (auto simp: set_insert_desc)

lemma mset_sort_createdAt_desc: "mset (sort_createdAt_desc us) = mset us"
  by (induction us) (auto simp: sort_createdAt_desc_def mset_insert_desc)

lemma sorted_sort_createdAt_desc:
  "sorted_wrt (\<lambda>a b. u_createdAt b \<le> u_createdAt a) (sort_createdAt_desc us)"
  by (induction us) (auto simp: sort_createdAt_desc_def sorted_insert_desc)

text \<open>
  C7. When neither the \<^verbatim>\<open>isAdmin\<close> query parameter nor the \<^verbatim>\<open>x-admin\<close> header is
  the string \<^verbatim>\<open>true\<close> the answer is 403. When one of them is, and the connection is
  up, the answer is 200 with one record for every stored user, in descending order of
  creation time, and no record has a \<^verbatim>\<open>password\<close> field.
\<close>

theorem get_api_register_gate:
  "(query_isAdmin r \<noteq> Some ''true'' \<and> header_x_admin r \<noteq> Some ''true'' \<longrightarrow>
      get_api_register r s = (send 403 (error_body ''Access denied. Admins only.''), s))
   \<and> (connected s \<and> (query_isAdmin r = Some ''true'' \<or> header_x_admin r = Some ''true'') \<longrightarrow>
        (\<exists>listed. mset listed = mset (users s)
           \<and> sorted_wrt (\<lambda>a b. u_createdAt b \<le> u_createdAt a) listed
           \<and> get_api_register r s
              = (send 200 (JArr (map (\<lambda>u. JObj [(''_id'', JId (u_id u)),
                                                 (''username'', JStr (u_username u)),
                                                 (''email'', JStr (u_email u)),
                                                 (''isAdmin'', JBool (u_isAdmin u)),
                                                 (''createdAt'', JDate (u_createdAt u))])
                                  listed)), s))
        \<and> (\<forall>d\<in>set (elements (body (fst (get_api_register r s)))).
              ''password'' \<notin> set (field_names d)))"
proof (intro conjI impI)
  assume "query_isAdmin r \<noteq> Some ''true'' \<and> header_x_admin r \<noteq> Some ''true''"
  then show "get_api_register r s = (send 403 (error_body ''Access denied. Admins only.''), s)"
    by (simp add: get_api_register_def)
next
  assume a: "connected s \<and> (query_isAdmin r = Some ''true'' \<or> header_x_admin r = Some ''true'')"
  then have r: "get_api_register r s
      = (send 200 (JArr (map (\<lambda>u. JObj (exclude_field ''password'' (user_document u)))
                          (sort_createdAt_desc (users s)))), s)"
    by (auto simp: get_api_register_def User_find_listing_def comp_def)
  have "get_api_register r s
      = (send 200 (JArr (map (\<lambda>u. JObj [(''_id'', JId (u_id u)),
                                         (''username'', JStr (u_username u)),
                                         (''email'', JStr (u_email u)),
                                         (''isAdmin'', JBool (u_isAdmin u)),
                                         (''createdAt'', JDate (u_createdAt u))])
                          (sort_createdAt_desc (users s)))), s)"
    unfolding r by (simp add: exclude_field_def user_document_def)
  then show "\<exists>listed. mset listed = mset (users s)
           \<and> sorted_wrt (\<lambda>a b. u_createdAt b \<le> u_createdAt a) listed
           \<and> get_api_register r s
              = (send 200 (JArr (map (\<lambda>u. JObj [(''_id'', JId (u_id u)),
                                                 (''username'', JStr (u_username u)),
                                                 (''email'', JStr (u_email u)),
                                                 (''isAdmin'', JBool (u_isAdmin u)),
                                                 (''createdAt'', JDate (u_createdAt u))])
                                  listed)), s)"
    using mset_sort_createdAt_desc sorted_sort_createdAt_desc by blast
  show "\<forall>d\<in>set (elements (body (fst (get_api_register r s)))).
              ''password'' \<notin> set (field_names d)"
    unfolding r by (auto simp: elements_def send_def exclude_field_def)
qed

theorem get_api_register_gate_witness:
  "query_isAdmin \<lparr>query_isAdmin = None, header_x_admin = Some ''yes''\<rparr> \<noteq> Some ''true''
   \<and> header_x_admin \<lparr>query_isAdmin = None, header_x_admin = Some ''yes''\<rparr> \<noteq> Some ''true''
   \<and> get_api_register \<lparr>query_isAdmin = None, header_x_admin = Some ''yes''\<rparr> sample_store
      = (send 403 (error_body ''Access denied. Admins only.''), sample_store)
   \<and> connected sample_store
   \<and> header_x_admin \<lparr>query_isAdmin = None, header_x_admin = Some ''true''\<rparr> = Some ''true''
   \<and> list_all (\<lambda>d. ''password'' \<notin> set (field_names d))
        (elements (body (fst (get_api_register
          \<lparr>query_isAdmin = None, header_x_admin = Some ''true''\<rparr> sample_store))))
   \<and> elements (body (fst (get_api_register
          \<lparr>query_isAdmin = None, header_x_admin = Some ''true''\<rparr> sample_store)))
      = [JObj [(''_id'', JId 1), (''username'', JStr ''bob''), (''email'', JStr ''bob@x.com''),
               (''isAdmin'', JBool True), (''createdAt'', JDate 20)],
         JObj [(''_id'', JId 0), (''username'', JStr ''ann''), (''email'', JStr ''ann@x.com''),
               (''isAdmin'', JBool False), (''createdAt'', JDate 10)]]"
  using sample_connected
    get_api_register_gate [where s = sample_store
      and r = "\<lparr>query_isAdmin = None, header_x_admin = Some ''yes''\<rparr>"]
    get_api_register_gate [where s = sample_store
      and r = "\<lparr>query_isAdmin = None, header_x_admin = Some ''true''\<rparr>"]
  by (simp add: get_api_register_def User_find_listing_def sample_store_def ann_def bob_def
      sort_createdAt_desc_def exclude_field_def user_document_def elements_def send_def)

section \<open>Posts: update, creation, deletion\<close>

lemma update_first_split:
  "find q ps = Some p \<Longrightarrow>
   \<exists>pre suf. ps = pre @ p # suf \<and> (\<forall>x\<in>set pre. \<not> q x)
             \<and> update_first q f ps = pre @ f p # suf"
proof (induction ps)
  case Nil
  then show ?case by simp
next
  case (Cons a ps)
  show ?case
  proof (cases "q a")
    case True
    with Cons.prems have "a = p" by simp
    with True have "a # ps = [] @ p # ps \<and> (\<forall>x\<in>set []. \<not> q x)
        \<and> update_first q f (a # ps) = [] @ f p # ps" by simp
    then show ?thesis by blast
  next
    case False
    with Cons.prems have "find q ps = Some p" by simp
    from Cons.IH [OF this] obtain pre suf where
      "ps = pre @ p # suf" "\<forall>x\<in>set pre. \<not> q x" "update_first q f ps = pre @ f p # suf"
      by blast
    with False have "a # ps = (a # pre) @ p # suf \<and> (\<forall>x\<in>set (a # pre). \<not> q x)
        \<and> update_first q f (a # ps) = (a # pre) @ f p # suf" by simp
    then show ?thesis by blast
  qed
qed

lemma put_api_posts_found:
  assumes "connected s" "find (\<lambda>p. p_id p = k) (posts s) = Some p" "dates_castable b"
  shows "put_api_posts (ObjectId k) b s =
           (send 200 (message_body ''Post updated successfully.''),
            s\<lparr>posts := update_first (\<lambda>p. p_id p = k) (overlay b) (posts s)\<rparr>)"
  using assms by (simp add: put_api_posts_def Post_findByIdAndUpdate_def)







lemma overlay_category_only:
  "overlay (no_fields\<lparr>f_category := Some x\<rparr>) p = p\<lparr>p_category := x\<rparr>"
  by (simp add: overlay_def no_fields_def)

lemma dates_castable_category_only: "dates_castable (no_fields\<lparr>f_category := Some x\<rparr>)"
  by (simp add: dates_castable_def no_fields_def)

text \<open>
  C4. On a connected store, an update of a stored post whose body has the one field
  \<^verbatim>\<open>category\<close> replaces that post by itself with the new category: every other field
  of the post, every other post and the rest of the store are as before.
\<close>

theorem put_api_posts_category_only:
  assumes "connected s" and "find (\<lambda>p. p_id p = k) (posts s) = Some p"
  shows "\<exists>pre suf. posts s = pre @ p # suf \<and> (\<forall>x\<in>set pre. p_id x \<noteq> k)
           \<and> snd (put_api_posts (ObjectId k) (no_fields\<lparr>f_category := Some x\<rparr>) s)
               = s\<lparr>posts := pre @ p\<lparr>p_category := x\<rparr> # suf\<rparr>"
proof -
  from update_first_split [OF assms(2), of "overlay (no_fields\<lparr>f_category := Some x\<rparr>)"]
  obtain pre suf where
    "posts s = pre @ p # suf" "\<forall>x\<in>set pre. p_id x \<noteq> k"
    "update_first (\<lambda>p. p_id p = k) (overlay (no_fields\<lparr>f_category := Some x\<rparr>)) (posts s)
       = pre @ p\<lparr>p_category := x\<rparr> # suf"
    by (auto simp: overlay_category_only)
  then show ?thesis
    using put_api_posts_found [OF assms dates_castable_category_only, of x] by auto
qed

theorem put_api_posts_category_only_witness:
  "connected sample_store
   \<and> find (\<lambda>p. p_id p = 3) (posts sample_store) = Some second_post
   \<and> snd (put_api_posts (ObjectId 3) (no_fields\<lparr>f_category := Some ''x''\<rparr>) sample_store)
       = sample_store\<lparr>posts := [first_post, second_post\<lparr>p_category := ''x''\<rparr>]\<rparr>"
proof -
  have f: "find (\<lambda>p. p_id p = 3) (posts sample_store) = Some second_post"
    by (simp add: sample_defs)
  from put_api_posts_category_only [OF sample_connected f, of "''x''"]
  obtain pre suf where
    s: "posts sample_store = pre @ second_post # suf" "\<forall>x\<in>set pre. p_id x \<noteq> 3"
    "snd (put_api_posts (ObjectId 3) (no_fields\<lparr>f_category := Some ''x''\<rparr>) sample_store)
       = sample_store\<lparr>posts := pre @ second_post\<lparr>p_category := ''x''\<rparr> # suf\<rparr>"
    by blast
  show ?thesis
    using sample_connected f
    by (simp add: sample_defs put_api_posts_def Post_findByIdAndUpdate_def overlay_def
        dates_castable_def)
qed

text \<open>What a creation that passes the check of the four fields returns.\<close>

lemma post_api_posts_created:
  fixes e :: env
  assumes "connected s"
    and "\<not> falsy (f_title b)" "\<not> falsy (f_content b)" "\<not> falsy (f_category b)"
    and "f_author b = Some a" "a \<noteq> []"
    and "\<forall>n. f_createdAt b = Some n \<longrightarrow> n \<le> 8640000000000000"
  shows "\<exists>c. post_api_posts e b s =
               (send 201 (message_body ''Post created successfully.''),
                s\<lparr>posts := posts s @ [c], next_id := Suc (next_id s)\<rparr>)
           \<and> p_id c = next_id s
           \<and> p_author c = (case find (\<lambda>u. u_username u = a) (users s) of
                              Some d \<Rightarrow> AuthorRef (u_id d) | None \<Rightarrow> AuthorName a)
           \<and> Some (p_title c) = f_title b \<and> Some (p_content c) = f_content b
           \<and> Some (p_category c) = f_category b
           \<and> p_createdAt c = (if falsy_num (f_createdAt b) then now e
                               else the (f_createdAt b))"
proof -
  let ?c = "\<lparr>p_id = next_id s, p_title = the (f_title b), p_content = the (f_content b),
             p_author = (case find (\<lambda>u. u_username u = a) (users s) of
                           Some d \<Rightarrow> AuthorRef (u_id d) | None \<Rightarrow> AuthorName a),
             p_category = the (f_category b),
             p_createdAt = (if falsy_num (f_createdAt b) then now e else the (f_createdAt b)),
             p_updatedAt = now e, p_thumbnail = f_thumbnail b,
             p_images = (case f_images b of None \<Rightarrow> [] | Some imgs \<Rightarrow> imgs),
             p_keywords = f_keywords b, p_subtitle = f_subtitle b,
             p_authorGmail = f_authorGmail b\<rparr>"
  have d: "\<not> falsy_num (f_createdAt b) \<Longrightarrow>
             new_Date (the (f_createdAt b)) = Some (the (f_createdAt b))"
    using assms(7) by (cases "f_createdAt b") (auto simp: new_Date_def falsy_num_def)
  have "post_api_posts e b s =
               (send 201 (message_body ''Post created successfully.''),
                s\<lparr>posts := posts s @ [?c], next_id := Suc (next_id s)\<rparr>)"
    using assms(1-6) d
    by (simp add: post_api_posts_def User_findOne_def Post_save_def falsy_simps Let_def
        cong: option.case_cong)
  moreover have "Some (p_title ?c) = f_title b" "Some (p_content ?c) = f_content b"
    "Some (p_category ?c) = f_category b"
    using assms(2-4) by (auto simp: falsy_def)
  ultimately show ?thesis
    by (intro exI [of _ ?c]) simp
qed

text \<open>A creation whose \<^verbatim>\<open>createdAt\<close> is no date, with the four fields present.\<close>

lemma post_api_posts_invalid_date:
  fixes e :: env
  assumes "\<not> falsy (f_title b)" "\<not> falsy (f_content b)" "\<not> falsy (f_author b)"
    "\<not> falsy (f_category b)"
    and "f_createdAt b = Some n" "8640000000000000 < n"
  shows "post_api_posts e b s = (send 500 (error_body ''Server error.''), s)"
  using assms
  by (simp add: post_api_posts_def User_findOne_def falsy_num_def new_Date_def Let_def)

text \<open>
  C3. A creation that passes the check of the four fields on a connected store, with a
  \<^verbatim>\<open>createdAt\<close> that is absent or a date, answers 201 and appends one post; the users
  are as before. When a stored user has the author string as username, the author of the
  new post is the id of such a user: of the first one the collection holds, which is the
  only one when the usernames are distinct. When no stored user has it, the author is the
  string as given.
\<close>

theorem post_api_posts_author:
  fixes e :: env
  assumes "connected s"
    and "\<not> falsy (f_title b)" "\<not> falsy (f_content b)" "\<not> falsy (f_category b)"
    and "f_author b = Some a" "a \<noteq> []"
    and "\<forall>n. f_createdAt b = Some n \<longrightarrow> n \<le> 8640000000000000"
  shows "\<exists>c. snd (post_api_posts e b s) = s\<lparr>posts := posts s @ [c], next_id := Suc (next_id s)\<rparr>
           \<and> status (fst (post_api_posts e b s)) = 201
           \<and> (\<forall>u. find (\<lambda>u. u_username u = a) (users s) = Some u \<longrightarrow>
                  p_author c = AuthorRef (u_id u))
           \<and> (\<forall>u\<in>set (users s). u_username u = a \<and> distinct (map u_username (users s)) \<longrightarrow>
                  p_author c = AuthorRef (u_id u))
           \<and> ((\<exists>u\<in>set (users s). u_username u = a) \<longrightarrow>
                  (\<exists>u\<in>set (users s). u_username u = a \<and> p_author c = AuthorRef (u_id u)))
           \<and> ((\<forall>u\<in>set (users s). u_username u \<noteq> a) \<longrightarrow> p_author c = AuthorName a)"
proof -
  from post_api_posts_created [OF assms, where e = e] obtain c where
    r: "post_api_posts e b s =
               (send 201 (message_body ''Post created successfully.''),
                s\<lparr>posts := posts s @ [c], next_id := Suc (next_id s)\<rparr>)"
    and c: "p_author c = (case find (\<lambda>u. u_username u = a) (users s) of
                              Some d \<Rightarrow> AuthorRef (u_id d) | None \<Rightarrow> AuthorName a)"
    by blast
  have 1: "\<forall>u. find (\<lambda>u. u_username u = a) (users s) = Some u \<longrightarrow>
                  p_author c = AuthorRef (u_id u)"
    using c by simp
  have 2: "\<forall>u\<in>set (users s). u_username u = a \<and> distinct (map u_username (users s)) \<longrightarrow>
                  p_author c = AuthorRef (u_id u)"
  proof (intro ballI impI)
    fix u assume "u \<in> set (users s)"
      and "u_username u = a \<and> distinct (map u_username (users s))"
    then have "find (\<lambda>y. u_username y = a) (users s) = Some u"
      using find_unique [of u_username "users s" u] by auto
    then show "p_author c = AuthorRef (u_id u)" using c by simp
  qed
  have 3: "(\<exists>u\<in>set (users s). u_username u = a) \<longrightarrow>
                  (\<exists>u\<in>set (users s). u_username u = a \<and> p_author c = AuthorRef (u_id u))"
  proof
    assume "\<exists>u\<in>set (users s). u_username u = a"
    then obtain y where y: "find (\<lambda>u. u_username u = a) (users s) = Some y"
      using find_Some_ex [of "users s" "\<lambda>u. u_username u = a"] by blast
    from find_Some_sat [OF y] y c
    show "\<exists>u\<in>set (users s). u_username u = a \<and> p_author c = AuthorRef (u_id u)"
      by auto
  qed
  have 4: "(\<forall>u\<in>set (users s). u_username u \<noteq> a) \<longrightarrow> p_author c = AuthorName a"
  proof
    assume "\<forall>u\<in>set (users s). u_username u \<noteq> a"
    then have "find (\<lambda>u. u_username u = a) (users s) = None"
      by (simp add: find_None_iff_all)
    then show "p_author c = AuthorName a" using c by simp
  qed
  have "snd (post_api_posts e b s) = s\<lparr>posts := posts s @ [c], next_id := Suc (next_id s)\<rparr>
        \<and> status (fst (post_api_posts e b s)) = 201"
    unfolding r by (simp add: send_def)
  with 1 2 3 4 show ?thesis by blast
qed

theorem post_api_posts_author_witness:
  "connected sample_store
   \<and> \<not> falsy (f_title hello_request) \<and> \<not> falsy (f_content hello_request)
   \<and> \<not> falsy (f_category hello_request) \<and> f_author hello_request = Some ''bob''
   \<and> f_createdAt hello_request = None
   \<and> bob \<in> set (users sample_store) \<and> u_username bob = ''bob''
   \<and> distinct (map u_username (users sample_store))
   \<and> map p_author (posts (snd (post_api_posts sample_env hello_request sample_store)))
       = [AuthorRef 0, AuthorName ''guest'', AuthorRef (u_id bob)]
   \<and> f_author guest_request = Some ''zoe''
   \<and> f_createdAt guest_request = Some 70
   \<and> ''zoe'' \<notin> set (map u_username (users sample_store))
   \<and> map p_author (posts (snd (post_api_posts sample_env guest_request sample_store)))
       = [AuthorRef 0, AuthorName ''guest'', AuthorName ''zoe'']
   \<and> users (snd (post_api_posts sample_env hello_request sample_store)) = users sample_store"
proof -
  have h: "\<not> falsy (f_title hello_request)" "\<not> falsy (f_content hello_request)"
    "\<not> falsy (f_category hello_request)" "f_author hello_request = Some ''bob''" "''bob'' \<noteq> []"
    "\<forall>n. f_createdAt hello_request = Some n \<longrightarrow> n \<le> 8640000000000000"
    and g: "\<not> falsy (f_title guest_request)" "\<not> falsy (f_content guest_request)"
    "\<not> falsy (f_category guest_request)" "f_author guest_request = Some ''zoe''" "''zoe'' \<noteq> []"
    "\<forall>n. f_createdAt guest_request = Some n \<longrightarrow> n \<le> 8640000000000000"
    by (simp_all add: hello_request_def guest_request_def no_fields_def falsy_def)
  note t1 = post_api_posts_author [OF sample_connected h, where e = sample_env]
  note t2 = post_api_posts_author [OF sample_connected g, where e = sample_env]
  show ?thesis
    using t1 t2 h(1-5) g(1-5) sample_connected
    by (simp add: sample_defs post_api_posts_def User_findOne_def Post_save_def falsy_def
        falsy_num_def new_Date_def hello_request_def guest_request_def Let_def)
qed

text \<open>
  C9. A creation in which the title, the content, the author or the category is missing
  (or empty) answers 400 and leaves the store as it was. Whenever the answer is 201 its
  body is the confirmation message alone, without the document and without its id; with
  the four fields present on a connected store, and a \<^verbatim>\<open>createdAt\<close> that is absent or
  a date, the answer is 201 and one post, with the next identity, is appended. With the
  four fields present and a \<^verbatim>\<open>createdAt\<close> beyond the range of dates the answer is 500
  and nothing is stored.
\<close>

theorem post_api_posts_response:
  fixes e :: env
  shows "(falsy (f_title b) \<or> falsy (f_content b) \<or> falsy (f_author b) \<or> falsy (f_category b) \<longrightarrow>
            post_api_posts e b s = (send 400 (error_body ''Missing required fields.''), s))
       \<and> (status (fst (post_api_posts e b s)) = 201 \<longrightarrow>
            body (fst (post_api_posts e b s))
              = JObj [(''message'', JStr ''Post created successfully.'')])
       \<and> (connected s \<and> \<not> falsy (f_title b) \<and> \<not> falsy (f_content b) \<and> \<not> falsy (f_author b)
            \<and> \<not> falsy (f_category b)
            \<and> (\<forall>n. f_createdAt b = Some n \<longrightarrow> n \<le> 8640000000000000) \<longrightarrow>
            fst (post_api_posts e b s)
              = send 201 (JObj [(''message'', JStr ''Post created successfully.'')])
          \<and> (\<exists>c. p_id c = next_id s
                \<and> snd (post_api_posts e b s)
                    = s\<lparr>posts := posts s @ [c], next_id := Suc (next_id s)\<rparr>))
       \<and> (\<not> falsy (f_title b) \<and> \<not> falsy (f_content b) \<and> \<not> falsy (f_author b)
            \<and> \<not> falsy (f_category b)
            \<and> (\<exists>n. f_createdAt b = Some n \<and> 8640000000000000 < n) \<longrightarrow>
            post_api_posts e b s = (send 500 (error_body ''Server error.''), s))"
proof (intro conjI impI)
  assume "falsy (f_title b) \<or> falsy (f_content b) \<or> falsy (f_author b) \<or> falsy (f_category b)"
  then show "post_api_posts e b s = (send 400 (error_body ''Missing required fields.''), s)"
    by (simp add: post_api_posts_def)
next
  assume "status (fst (post_api_posts e b s)) = 201"
  then show "body (fst (post_api_posts e b s))
              = JObj [(''message'', JStr ''Post created successfully.'')]"
    by (auto simp: post_api_posts_def send_def message_body_def Let_def
        split: if_splits sum.splits option.splits)
next
  assume a: "connected s \<and> \<not> falsy (f_title b) \<and> \<not> falsy (f_content b) \<and> \<not> falsy (f_author b)
            \<and> \<not> falsy (f_category b)
            \<and> (\<forall>n. f_createdAt b = Some n \<longrightarrow> n \<le> 8640000000000000)"
  then obtain au where au: "f_author b = Some au" "au \<noteq> []"
    by (cases "f_author b") (auto simp: falsy_simps)
  from a au post_api_posts_created [where e = e and b = b and s = s and a = au]
  obtain c where
    r: "post_api_posts e b s =
               (send 201 (message_body ''Post created successfully.''),
                s\<lparr>posts := posts s @ [c], next_id := Suc (next_id s)\<rparr>)"
    and c: "p_id c = next_id s"
    by blast
  show "fst (post_api_posts e b s)
              = send 201 (JObj [(''message'', JStr ''Post created successfully.'')])"
    unfolding r by (simp add: message_body_def)
  show "\<exists>c. p_id c = next_id s
                \<and> snd (post_api_posts e b s)
                    = s\<lparr>posts := posts s @ [c], next_id := Suc (next_id s)\<rparr>"
    unfolding r using c by (intro exI [of _ c]) simp
next
  assume "\<not> falsy (f_title b) \<and> \<not> falsy (f_content b) \<and> \<not> falsy (f_author b)
            \<and> \<not> falsy (f_category b)
            \<and> (\<exists>n. f_createdAt b = Some n \<and> 8640000000000000 < n)"
  then show "post_api_posts e b s = (send 500 (error_body ''Server error.''), s)"
    using post_api_posts_invalid_date [where e = e and b = b and s = s] by blast
qed

theorem post_api_posts_response_witness:
  "falsy (f_category (hello_request\<lparr>f_category := None\<rparr>))
   \<and> post_api_posts sample_env (hello_request\<lparr>f_category := None\<rparr>) sample_store
       = (send 400 (error_body ''Missing required fields.''), sample_store)
   \<and> connected sample_store
   \<and> \<not> falsy (f_title hello_request) \<and> \<not> falsy (f_content hello_request)
   \<and> \<not> falsy (f_author hello_request) \<and> \<not> falsy (f_category hello_request)
   \<and> f_createdAt hello_request = None
   \<and> status (fst (post_api_posts sample_env hello_request sample_store)) = 201
   \<and> body (fst (post_api_posts sample_env hello_request sample_store))
       = JObj [(''message'', JStr ''Post created successfully.'')]
   \<and> map p_id (posts (snd (post_api_posts sample_env hello_request sample_store))) = [2, 3, 4]
   \<and> f_createdAt (hello_request\<lparr>f_createdAt := Some 8640000000000001\<rparr>)
       = Some 8640000000000001
   \<and> post_api_posts sample_env (hello_request\<lparr>f_createdAt := Some 8640000000000001\<rparr>)
        sample_store
       = (send 500 (error_body ''Server error.''), sample_store)"
  using sample_connected
    post_api_posts_response [where e = sample_env and s = sample_store
      and b = "hello_request\<lparr>f_category := None\<rparr>"]
    post_api_posts_response [where e = sample_env and s = sample_store and b = hello_request]
    post_api_posts_response [where e = sample_env and s = sample_store
      and b = "hello_request\<lparr>f_createdAt := Some 8640000000000001\<rparr>"]
  by (simp add: sample_defs post_api_posts_def User_findOne_def Post_save_def falsy_def
      falsy_num_def new_Date_def hello_request_def Let_def send_def message_body_def)

lemma delete_api_posts_found:
  assumes "connected s" "find (\<lambda>p. p_id p = k) (posts s) = Some p"
  shows "delete_api_posts (ObjectId k) s =
           (send 200 (message_body ''Post deleted successfully.''),
            s\<lparr>posts := remove1 p (posts s)\<rparr>)"
  using assms by (simp add: delete_api_posts_def Post_findByIdAndDelete_def)

lemma delete_api_posts_absent:
  assumes "connected s" "\<forall>p\<in>set (posts s). p_id p \<noteq> k"
  shows "delete_api_posts (ObjectId k) s = (send 404 (error_body ''Post not found.''), s)"
proof -
  have "find (\<lambda>p. p_id p = k) (posts s) = None"
    using assms(2) by (simp add: find_None_iff_all)
  with assms(1) show ?thesis
    by (simp add: delete_api_posts_def Post_findByIdAndDelete_def)
qed

text \<open>
  C10. On a connected store whose post identities are distinct, the deletion of a stored
  post by its id answers 200 and removes that post and no other, and the same request
  again answers 404 and changes nothing; a deletion by an id that no stored post has
  answers 404 and changes nothing.
\<close>

theorem delete_api_posts_twice:
  assumes "connected s"
  shows "(p \<in> set (posts s) \<and> p_id p = k \<and> distinct (map p_id (posts s)) \<longrightarrow>
            delete_api_posts (ObjectId k) s
              = (send 200 (message_body ''Post deleted successfully.''),
                 s\<lparr>posts := remove1 p (posts s)\<rparr>)
          \<and> set (remove1 p (posts s)) = set (posts s) - {p}
          \<and> delete_api_posts (ObjectId k) (snd (delete_api_posts (ObjectId k) s))
              = (send 404 (error_body ''Post not found.''),
                 snd (delete_api_posts (ObjectId k) s)))
       \<and> ((\<forall>p\<in>set (posts s). p_id p \<noteq> k) \<longrightarrow>
            delete_api_posts (ObjectId k) s = (send 404 (error_body ''Post not found.''), s))"
proof (intro conjI impI)
  assume a: "p \<in> set (posts s) \<and> p_id p = k \<and> distinct (map p_id (posts s))"
  then have f: "find (\<lambda>y. p_id y = k) (posts s) = Some p"
    using find_unique [of p_id "posts s" p] by auto
  from a have d: "distinct (posts s)"
    by (simp add: distinct_map)
  show r: "delete_api_posts (ObjectId k) s
              = (send 200 (message_body ''Post deleted successfully.''),
                 s\<lparr>posts := remove1 p (posts s)\<rparr>)"
    using delete_api_posts_found [OF assms f] .
  show "set (remove1 p (posts s)) = set (posts s) - {p}"
    using d by simp
  have "\<forall>q\<in>set (remove1 p (posts s)). p_id q \<noteq> k"
  proof
    fix q assume "q \<in> set (remove1 p (posts s))"
    with d have q: "q \<in> set (posts s)" "q \<noteq> p" by auto
    with a show "p_id q \<noteq> k"
      by (auto simp: distinct_map dest: inj_onD)
  qed
  then show "delete_api_posts (ObjectId k) (snd (delete_api_posts (ObjectId k) s))
              = (send 404 (error_body ''Post not found.''),
                 snd (delete_api_posts (ObjectId k) s))"
    unfolding r using assms delete_api_posts_absent [of "s\<lparr>posts := remove1 p (posts s)\<rparr>" k]
    by simp
next
  assume "\<forall>p\<in>set (posts s). p_id p \<noteq> k"
  then show "delete_api_posts (ObjectId k) s = (send 404 (error_body ''Post not found.''), s)"
    using delete_api_posts_absent [OF assms] by blast
qed

theorem delete_api_posts_twice_witness:
  "connected sample_store
   \<and> first_post \<in> set (posts sample_store) \<and> p_id first_post = 2
   \<and> distinct (map p_id (posts sample_store))
   \<and> delete_api_posts (ObjectId 2) sample_store
       = (send 200 (message_body ''Post deleted successfully.''),
          sample_store\<lparr>posts := [second_post]\<rparr>)
   \<and> delete_api_posts (ObjectId 2) (snd (delete_api_posts (ObjectId 2) sample_store))
       = (send 404 (error_body ''Post not found.''), sample_store\<lparr>posts := [second_post]\<rparr>)
   \<and> 7 \<notin> set (map p_id (posts sample_store))
   \<and> delete_api_posts (ObjectId 7) sample_store
       = (send 404 (error_body ''Post not found.''), sample_store)"
  using sample_connected
    delete_api_posts_twice [OF sample_connected, where k = 2 and p = first_post]
    delete_api_posts_twice [OF sample_connected, where k = 7 and p = first_post]
  by (simp add: sample_defs delete_api_posts_def Post_findByIdAndDelete_def)

text \<open>
  The handlers keep the post identities distinct, so the hypothesis of the last theorem
  holds of every store reached from one where it holds.
\<close>

lemma p_id_overlay: "p_id (overlay b p) = p_id p"
  by (simp add: overlay_def)

lemma map_p_id_update_first:
  "map p_id (update_first q (overlay b) ps) = map p_id ps"
  by (induction ps) (auto simp: p_id_overlay)

lemma post_ids_fresh_post_api_posts:
  "post_ids_fresh s \<Longrightarrow> post_ids_fresh (snd (post_api_posts e b s))"
  by (auto simp: post_ids_fresh_def post_api_posts_def User_findOne_def Post_save_def Let_def
      list_all_iff split: option.splits)

lemma list_all_p_id_update_first:
  "list_all (\<lambda>p. p_id p < n) (update_first q (overlay b) ps) = list_all (\<lambda>p. p_id p < n) ps"
  by (induction ps) (auto simp: p_id_overlay)

lemma post_ids_fresh_put_api_posts:
  "post_ids_fresh s \<Longrightarrow> post_ids_fresh (snd (put_api_posts i b s))"
  by (auto simp: post_ids_fresh_def put_api_posts_def Post_findByIdAndUpdate_def
      map_p_id_update_first list_all_p_id_update_first split: id_param.splits option.splits)

lemma post_ids_fresh_delete_api_posts:
  "post_ids_fresh s \<Longrightarrow> post_ids_fresh (snd (delete_api_posts i s))"
  by (auto simp: post_ids_fresh_def delete_api_posts_def Post_findByIdAndDelete_def
      list_all_iff distinct_map
      split: id_param.splits option.splits intro: inj_on_subset [OF _ Diff_subset])

lemma post_ids_fresh_post_api_register:
  "post_ids_fresh s \<Longrightarrow> post_ids_fresh (snd (post_api_register e b s))"
  by (auto simp: post_ids_fresh_def post_api_register_def User_findOne_def User_save_def Let_def
      list_all_iff split: option.splits)

section \<open>Store errors\<close>

text \<open>
  The catch branch: with the connection down every handler that reaches the store answers
  500 and leaves the store as it was, and so do the update and the deletion for a path
  segment that is no identity.
\<close>

lemma store_down_answers_500:
  assumes "\<not> connected s"
  shows "\<not> falsy (l_email lb) \<Longrightarrow> \<not> falsy (l_password lb) \<Longrightarrow>
           post_api_login e lb s = (send 500 (error_body ''Server error.''), s)"
    and "\<not> falsy (r_name rb) \<Longrightarrow> \<not> falsy (r_email rb) \<Longrightarrow> \<not> falsy (r_password rb) \<Longrightarrow>
           post_api_register e rb s = (send 500 (error_body ''Server error.''), s)"
    and "\<not> falsy (f_title b) \<Longrightarrow> \<not> falsy (f_content b) \<Longrightarrow> \<not> falsy (f_author b) \<Longrightarrow>
           \<not> falsy (f_category b) \<Longrightarrow>
           post_api_posts e b s = (send 500 (error_body ''Server error.''), s)"
    and "put_api_posts i b s = (send 500 (error_body ''Server error.''), s)"
    and "delete_api_posts i s = (send 500 (error_body ''Server error.''), s)"
    and "query_isAdmin r = Some ''true'' \<or> header_x_admin r = Some ''true'' \<Longrightarrow>
           get_api_register r s = (send 500 (error_body ''Server error fetching users.''), s)"
  using assms
  by (auto simp: post_api_login_def post_api_register_def post_api_posts_def put_api_posts_def
      delete_api_posts_def get_api_register_def User_findOne_def User_find_listing_def
      Post_findByIdAndUpdate_def Post_findByIdAndDelete_def split: id_param.splits)

lemma malformed_id_answers_500:
  "put_api_posts Malformed b s = (send 500 (error_body ''Server error.''), s)"
  "delete_api_posts Malformed s = (send 500 (error_body ''Server error.''), s)"
  by (simp_all add: put_api_posts_def delete_api_posts_def Post_findByIdAndUpdate_def
      Post_findByIdAndDelete_def)

end
